theory Spec2Isabelle
  imports Main
begin

section \<open>Data model\<close>

text \<open>
  The four tables of \<^verbatim>\<open>src/database.js\<close> (\<^verbatim>\<open>initSchema\<close>). A JavaScript string is a
  \<^typ>\<open>string\<close> whose characters are code units below 256; \<^verbatim>\<open>null\<close> in a nullable
  column is \<^const>\<open>None\<close>; the Unix time in seconds is an \<^typ>\<open>int\<close> that every
  operation reading the clock takes as its first argument.

  \<^verbatim>\<open>user_mappings\<close> and \<^verbatim>\<open>server_configs\<close> are read back whole
  (\<^verbatim>\<open>SELECT *\<close>), so they are lists of rows in insertion order; \<^verbatim>\<open>rate_limits\<close> and
  \<^verbatim>\<open>steam_cache\<close> are only read and written by their primary key \<^verbatim>\<open>steam_id\<close>, so they
  are maps from that key to the rest of the row.
\<close>

record user_mapping =
  um_discord_id :: string
  um_steam_id :: string
  um_linked_at :: int
  um_updated_at :: int

record server_config =
  sc_guild_id :: string
  sc_update_channel_id :: string
  sc_created_at :: int
  sc_updated_at :: int

record rate_limit =
  last_update :: int
  update_count :: int

record steam_cache_row =
  persona_name :: string
  game_name :: "string option"
  game_id :: "string option"
  persona_state :: int
  last_updated :: int

record database =
  user_mappings :: "user_mapping list"
  server_configs :: "server_config list"
  rate_limits :: "string \<rightharpoonup> rate_limit"
  steam_cache :: "string \<rightharpoonup> steam_cache_row"

text \<open>
  The \<^verbatim>\<open>presenceData\<close> object built in \<^verbatim>\<open>src/steam-manager.js\<close> (its \<^verbatim>\<open>richPresence\<close>
  field is read nowhere and is left out).
\<close>

record presence =
  steamId :: string
  personaName :: string
  personaState :: int
  gameId :: "string option"
  gameName :: "string option"

section \<open>Store operations (src/database.js)\<close>

text \<open>
  \<^verbatim>\<open>INSERT OR REPLACE\<close> deletes every row that conflicts with the new one on the primary
  key or on a \<^verbatim>\<open>UNIQUE\<close> column and then inserts the new row; columns that the statement
  does not list take their defaults (here the current time).
\<close>

definition linkUser :: "int \<Rightarrow> database \<Rightarrow> string \<Rightarrow> string \<Rightarrow> database" where
  "linkUser now d discordId sid =
     d\<lparr>user_mappings :=
         filter (\<lambda>r. um_discord_id r \<noteq> discordId \<and> um_steam_id r \<noteq> sid) (user_mappings d)
         @ [\<lparr>um_discord_id = discordId, um_steam_id = sid,
              um_linked_at = now, um_updated_at = now\<rparr>]\<rparr>"

definition unlinkUser :: "database \<Rightarrow> string \<Rightarrow> database" where
  "unlinkUser d discordId =
     d\<lparr>user_mappings := filter (\<lambda>r. um_discord_id r \<noteq> discordId) (user_mappings d)\<rparr>"

definition getUserMapping :: "database \<Rightarrow> string \<Rightarrow> user_mapping option" where
  "getUserMapping d discordId = find (\<lambda>r. um_discord_id r = discordId) (user_mappings d)"

definition getMappingBySteamId :: "database \<Rightarrow> string \<Rightarrow> user_mapping option" where
  "getMappingBySteamId d sid = find (\<lambda>r. um_steam_id r = sid) (user_mappings d)"

definition getAllMappings :: "database \<Rightarrow> user_mapping list" where
  "getAllMappings d = user_mappings d"

definition setUpdateChannel :: "int \<Rightarrow> database \<Rightarrow> string \<Rightarrow> string \<Rightarrow> database" where
  "setUpdateChannel now d guildId channelId =
     d\<lparr>server_configs :=
         filter (\<lambda>r. sc_guild_id r \<noteq> guildId) (server_configs d)
         @ [\<lparr>sc_guild_id = guildId, sc_update_channel_id = channelId,
              sc_created_at = now, sc_updated_at = now\<rparr>]\<rparr>"

definition getUpdateChannel :: "database \<Rightarrow> string \<Rightarrow> server_config option" where
  "getUpdateChannel d guildId = find (\<lambda>r. sc_guild_id r = guildId) (server_configs d)"

definition getAllServerConfigs :: "database \<Rightarrow> server_config list" where
  "getAllServerConfigs d = server_configs d"

definition canUpdate :: "int \<Rightarrow> database \<Rightarrow> string \<Rightarrow> int \<Rightarrow> bool" where
  "canUpdate now d sid cooldownSeconds =
     (case rate_limits d sid of
        None \<Rightarrow> True
      | Some record \<Rightarrow> now - last_update record \<ge> cooldownSeconds)"

definition recordUpdate :: "int \<Rightarrow> database \<Rightarrow> string \<Rightarrow> database" where
  "recordUpdate now d sid =
     d\<lparr>rate_limits := (rate_limits d)(sid \<mapsto>
         \<lparr>last_update = now,
          update_count =
            (case rate_limits d sid of None \<Rightarrow> 0 | Some r \<Rightarrow> update_count r) + 1\<rparr>)\<rparr>"

definition updateSteamCache :: "int \<Rightarrow> database \<Rightarrow> string \<Rightarrow> presence \<Rightarrow> database" where
  "updateSteamCache now d sid data =
     d\<lparr>steam_cache := (steam_cache d)(sid \<mapsto>
         \<lparr>persona_name = personaName data, game_name = gameName data,
          game_id = gameId data, persona_state = personaState data,
          last_updated = now\<rparr>)\<rparr>"

definition getSteamCache :: "database \<Rightarrow> string \<Rightarrow> steam_cache_row option" where
  "getSteamCache d sid = steam_cache d sid"

section \<open>The identifier parser of the link command\<close>

text \<open>
  \<^verbatim>\<open>String.prototype.trim\<close> removes white space and line terminators from both ends;
  below code unit 256 these are tab, line feed, vertical tab, form feed, carriage return,
  space and no-break space.
\<close>

definition isWhiteSpace :: "char \<Rightarrow> bool" where
  "isWhiteSpace c = (of_char c \<in> {9, 10, 11, 12, 13, 32, 160 :: nat})"

definition trim :: "string \<Rightarrow> string" where
  "trim s = rev (dropWhile isWhiteSpace (rev (dropWhile isWhiteSpace s)))"

text \<open>The class \<^verbatim>\<open>\d\<close> of a JavaScript regular expression: the ten ASCII digits.\<close>

definition isDigit :: "char \<Rightarrow> bool" where
  "isDigit c = (c \<in> set ''0123456789'')"

text \<open>\<^verbatim>\<open>/^7656119\d{10}$/.test(s)\<close>: without the \<^verbatim>\<open>m\<close> flag the anchors are the two ends of \<^verbatim>\<open>s\<close>.\<close>

definition testSteamID64 :: "string \<Rightarrow> bool" where
  "testSteamID64 s =
     (take 7 s = ''7656119'' \<and> length (drop 7 s) = 10 \<and> list_all isDigit (drop 7 s))"

text \<open>
  \<^verbatim>\<open>s.match(/lit(C+)/)\<close> for a literal \<^verbatim>\<open>lit\<close> and a character class \<^verbatim>\<open>C\<close>: the leftmost
  position where \<^verbatim>\<open>lit\<close> is followed by at least one character of \<^verbatim>\<open>C\<close>; the group
  captures the longest run of such characters. \<^const>\<open>None\<close> is \<^verbatim>\<open>null\<close> (no match).
\<close>

fun matchAfter :: "string \<Rightarrow> (char \<Rightarrow> bool) \<Rightarrow> string \<Rightarrow> string option" where
  "matchAfter lit cls [] = None"
| "matchAfter lit cls (c # cs) =
     (if take (length lit) (c # cs) = lit
         \<and> takeWhile cls (drop (length lit) (c # cs)) \<noteq> []
      then Some (takeWhile cls (drop (length lit) (c # cs)))
      else matchAfter lit cls cs)"

definition profileMatch :: "string \<Rightarrow> string option" where
  "profileMatch s = matchAfter ''steamcommunity.com/profiles/'' isDigit s"

definition customMatch :: "string \<Rightarrow> string option" where
  "customMatch s = matchAfter ''steamcommunity.com/id/'' (\<lambda>c. c \<noteq> CHR ''/'') s"

datatype parse_error = CustomUrlNotSupported | InvalidFormat

definition parseSteamIdentifier :: "string \<Rightarrow> parse_error + string" where
  "parseSteamIdentifier identifier0 =
     (let identifier = trim identifier0 in
      if testSteamID64 identifier then Inr identifier
      else case profileMatch identifier of
             Some digits \<Rightarrow> Inr digits
           | None \<Rightarrow>
               (case customMatch identifier of
                  Some _ \<Rightarrow> Inl CustomUrlNotSupported
                | None \<Rightarrow> Inl InvalidFormat))"

section \<open>Effects, collaborators and the bot object\<close>

text \<open>
  Everything a handler does besides changing the store is recorded, in order, as a list of
  effects: the calls on the logger (whatever level the logger prints at), the writes on
  the store, the calls on the two network clients and the exit of the process.
\<close>

datatype level = Debug | Info | Warn | Error

text \<open>
  The calls on the store and on the two clients that may throw: a statement of the store
  raises a \<^verbatim>\<open>SqliteError\<close> when the engine reports an error (a locked or full database, an
  input/output error), and \<^verbatim>\<open>logOff\<close>, \<^verbatim>\<open>destroy\<close> and \<^verbatim>\<open>close\<close> may throw during the
  shutdown. Which of them throw is a parameter \<open>fails\<close> of the functions that make them.
\<close>

datatype call =
    Call_getMappingBySteamId
  | Call_getSteamCache
  | Call_canUpdate
  | Call_updateSteamCache
  | Call_recordUpdate
  | Call_getAllServerConfigs
  | Call_logOff
  | Call_destroy
  | Call_close

text \<open>
  An exception: the \<^verbatim>\<open>TypeError\<close> of a method call on \<^verbatim>\<open>null\<close>, with the name of the
  field read, or the error thrown by one of the calls above.
\<close>

datatype exn = NullDeref string | Thrown call

datatype log_line =
    RateLimitedUpdate string
  | SentPresenceUpdate string nat
  | ErrorHandlingPresenceChange exn
  | ChannelNotFound string
  | ErrorSendingPresenceUpdate string
  | PresenceUpdateFor string int "string option"
  | AddedFriend string
  | RemovedFriend string
  | LinkedDiscordUser string string
  | ReceivedSignal string
  | LoggedOutOfSteam
  | DiscordClientDestroyed
  | ShutdownComplete
  | ErrorDuringShutdown exn
  | UncaughtExceptionLine
  | UnhandledRejectionLine
  | GeneratedCodeFromSecret
  | UsingProvidedCode
  | AttemptingLogin
  | LoggedIntoSteam
  | SteamLoginError
  | InvalidCredentialsLine
  | TwoFactorRequiredLine
  | SharedSecretHintLine
  | PreviousCodeIncorrect
  | GeneratedNewCodeFromSecret

datatype effect =
    Log level log_line
  | WroteCache string
  | WroteRateLimit string
  | ChannelFetch string
  | Delivered string presence "steam_cache_row option"
  | ClientLogOn string string "string option"
  | GuardCallback string
  | SetPersonaOnline
  | GamesPlayedNone
  | SteamLogOff
  | DiscordDestroy
  | StoreClose
  | ProcessExit int

text \<open>
  The configuration read from the environment: a variable that is not set is \<^const>\<open>None\<close>,
  and JavaScript takes both an unset variable and the empty string as false.
\<close>

record steam_config =
  username :: string
  password :: string
  sharedSecret :: "string option"
  twoFactorCode :: "string option"

definition truthy :: "string option \<Rightarrow> bool" where
  "truthy v = (case v of None \<Rightarrow> False | Some s \<Rightarrow> s \<noteq> [])"

text \<open>
  The fields of \<^verbatim>\<open>SteamManager\<close>; \<^verbatim>\<open>presenceChange\<close> tells whether a handler has been
  registered with \<^verbatim>\<open>onPresenceChange\<close> (the bot registers its \<^verbatim>\<open>handlePresenceChange\<close>).
\<close>

record steam_manager =
  config :: steam_config
  friendsCache :: "string set"
  isLoggedIn :: bool
  presenceChange :: bool

definition isFriend :: "steam_manager \<Rightarrow> string \<Rightarrow> bool" where
  "isFriend sm sid = (sid \<in> friendsCache sm)"

text \<open>
  What the chat client answers for a channel id: \<^verbatim>\<open>channels.fetch\<close> rejects, or resolves
  to \<^verbatim>\<open>null\<close> or to a channel, which is text based or not and whose \<^verbatim>\<open>send\<close> resolves or
  rejects.
\<close>

record channel =
  isTextBased :: bool
  sendResolves :: bool

datatype fetch_result = FetchRejects | Fetched "channel option"

record discord_manager =
  channels :: "string \<Rightarrow> fetch_result"

text \<open>
  The fields of \<^verbatim>\<open>SteamDiscordBot\<close> (\<^verbatim>\<open>src/logger.js\<close>, second file): the constructor sets
  the three collaborators to \<^verbatim>\<open>null\<close> and \<^verbatim>\<open>start\<close> fills them in.
\<close>

record bot =
  db :: "database option"
  steamManager :: "steam_manager option"
  discordManager :: "discord_manager option"
  isShuttingDown :: bool

section \<open>Fanout (src/discord-manager.js)\<close>

text \<open>
  \<^verbatim>\<open>sendPresenceUpdate\<close> catches whatever its body throws and returns \<^verbatim>\<open>false\<close>. The
  embed it sends is built from the new snapshot and the previous cache row, which stand
  for it in \<^const>\<open>Delivered\<close>.
\<close>

definition sendPresenceUpdate ::
  "discord_manager \<Rightarrow> string \<Rightarrow> presence \<Rightarrow> steam_cache_row option \<Rightarrow> effect list \<times> bool" where
  "sendPresenceUpdate dm channelId presenceData previousState =
     (case channels dm channelId of
        FetchRejects \<Rightarrow>
          ([ChannelFetch channelId, Log Error (ErrorSendingPresenceUpdate channelId)], False)
      | Fetched None \<Rightarrow>
          ([ChannelFetch channelId, Log Warn (ChannelNotFound channelId)], False)
      | Fetched (Some ch) \<Rightarrow>
          if \<not> isTextBased ch
          then ([ChannelFetch channelId, Log Warn (ChannelNotFound channelId)], False)
          else if sendResolves ch
          then ([ChannelFetch channelId, Delivered channelId presenceData previousState], True)
          else ([ChannelFetch channelId, Log Error (ErrorSendingPresenceUpdate channelId)],
                False))"

section \<open>The presence pipeline (src/logger.js, second file)\<close>

text \<open>
  The \<^verbatim>\<open>for\<close> loop of \<^verbatim>\<open>handlePresenceChange\<close> over the server configurations, with the
  running \<^verbatim>\<open>sentCount\<close>. \<^verbatim>\<open>this.discordManager\<close> is read in the loop body, so a
  \<^verbatim>\<open>null\<close> manager throws at the first configuration and not at all when there is none.
\<close>

fun fanout ::
  "discord_manager option \<Rightarrow> presence \<Rightarrow> steam_cache_row option \<Rightarrow> server_config list \<Rightarrow> nat
     \<Rightarrow> effect list \<times> nat \<times> exn option" where
  "fanout dmo presenceData previousState [] sentCount = ([], sentCount, None)"
| "fanout dmo presenceData previousState (cfg # rest) sentCount =
     (case dmo of
        None \<Rightarrow> ([], sentCount, Some (NullDeref ''discordManager''))
      | Some dm \<Rightarrow>
          (case sendPresenceUpdate dm (sc_update_channel_id cfg) presenceData previousState of
             (es, success) \<Rightarrow>
               (case fanout dmo presenceData previousState rest
                       (if success then sentCount + 1 else sentCount) of
                  (es', n, x) \<Rightarrow> (es @ es', n, x))))"

text \<open>
  The three readings of the clock in one run of the handler: by \<^verbatim>\<open>canUpdate\<close>, by the
  statement of \<^verbatim>\<open>updateSteamCache\<close> and by \<^verbatim>\<open>recordUpdate\<close>.
\<close>

record ticks =
  tick_canUpdate :: int
  tick_cache :: int
  tick_recordUpdate :: int

definition at_time :: "int \<Rightarrow> ticks" where
  "at_time t = \<lparr>tick_canUpdate = t, tick_cache = t, tick_recordUpdate = t\<rparr>"

text \<open>
  The \<^verbatim>\<open>try\<close> block of \<^verbatim>\<open>handlePresenceChange\<close>: the effects so far, the bot after them and
  the exception that ended the block, if one did. One run is taken as a whole: the store
  calls are synchronous and only the sends are awaited.
\<close>

definition presenceTry :: "ticks \<Rightarrow> presence \<Rightarrow> bot \<Rightarrow> effect list \<times> bot \<times> exn option" where
  "presenceTry tk presenceData b =
     (case db b of
        None \<Rightarrow> ([], b, Some (NullDeref ''db''))
      | Some d \<Rightarrow>
          (case getMappingBySteamId d (steamId presenceData) of
             None \<Rightarrow> ([], b, None)
           | Some mapping \<Rightarrow>
               (let previousState = getSteamCache d (steamId presenceData) in
                if (case previousState of
                      None \<Rightarrow> False
                    | Some prev \<Rightarrow>
                        \<not> (persona_state prev \<noteq> personaState presenceData)
                        \<and> \<not> (game_name prev \<noteq> gameName presenceData))
                then ([], b, None)
                else if \<not> canUpdate (tick_canUpdate tk) d (steamId presenceData) 300
                then ([Log Debug (RateLimitedUpdate (steamId presenceData)),
                       WroteCache (steamId presenceData)],
                      b\<lparr>db := Some (updateSteamCache (tick_cache tk) d
                                      (steamId presenceData) presenceData)\<rparr>,
                      None)
                else
                  (let d1 = updateSteamCache (tick_cache tk) d (steamId presenceData) presenceData;
                       d2 = recordUpdate (tick_recordUpdate tk) d1 (steamId presenceData);
                       serverConfigs = getAllServerConfigs d2
                   in case fanout (discordManager b) presenceData previousState serverConfigs 0 of
                        (es, sentCount, x) \<Rightarrow>
                          ([WroteCache (steamId presenceData),
                            WroteRateLimit (steamId presenceData)]
                           @ es
                           @ (if x = None \<and> sentCount > 0
                              then [Log Info (SentPresenceUpdate (personaName presenceData)
                                                sentCount)]
                              else []),
                           b\<lparr>db := Some d2\<rparr>,
                           x)))))"

text \<open>The \<^verbatim>\<open>catch\<close> of \<^verbatim>\<open>handlePresenceChange\<close> logs the exception and returns.\<close>

definition handlePresenceChange :: "ticks \<Rightarrow> presence \<Rightarrow> bot \<Rightarrow> effect list \<times> bot" where
  "handlePresenceChange tk presenceData b =
     (case presenceTry tk presenceData b of
        (es, b', None) \<Rightarrow> (es, b')
      | (es, b', Some error) \<Rightarrow> (es @ [Log Error (ErrorHandlingPresenceChange error)], b'))"

subsection \<open>Store calls that throw\<close>

text \<open>
  \<^const>\<open>presenceTry\<close> is the run of the \<^verbatim>\<open>try\<close> block in which every store call returns.
  The general run takes the store calls that throw as \<open>fails\<close>: the block ends at the
  first such call it makes, with the effects made so far and the store as the calls before
  it left it (a statement that throws writes nothing).
\<close>

definition presenceTryWith ::
  "(call \<Rightarrow> bool) \<Rightarrow> ticks \<Rightarrow> presence \<Rightarrow> bot \<Rightarrow> effect list \<times> bot \<times> exn option" where
  "presenceTryWith fails tk presenceData b =
     (case db b of
        None \<Rightarrow> ([], b, Some (NullDeref ''db''))
      | Some d \<Rightarrow>
          if fails Call_getMappingBySteamId
          then ([], b, Some (Thrown Call_getMappingBySteamId))
          else
          (case getMappingBySteamId d (steamId presenceData) of
             None \<Rightarrow> ([], b, None)
           | Some mapping \<Rightarrow>
               if fails Call_getSteamCache then ([], b, Some (Thrown Call_getSteamCache))
               else
               (let previousState = getSteamCache d (steamId presenceData) in
                if (case previousState of
                      None \<Rightarrow> False
                    | Some prev \<Rightarrow>
                        \<not> (persona_state prev \<noteq> personaState presenceData)
                        \<and> \<not> (game_name prev \<noteq> gameName presenceData))
                then ([], b, None)
                else if fails Call_canUpdate then ([], b, Some (Thrown Call_canUpdate))
                else if \<not> canUpdate (tick_canUpdate tk) d (steamId presenceData) 300
                then
                  (if fails Call_updateSteamCache
                   then ([Log Debug (RateLimitedUpdate (steamId presenceData))], b,
                         Some (Thrown Call_updateSteamCache))
                   else ([Log Debug (RateLimitedUpdate (steamId presenceData)),
                          WroteCache (steamId presenceData)],
                         b\<lparr>db := Some (updateSteamCache (tick_cache tk) d
                                         (steamId presenceData) presenceData)\<rparr>,
                         None))
                else if fails Call_updateSteamCache
                then ([], b, Some (Thrown Call_updateSteamCache))
                else
                  (let d1 = updateSteamCache (tick_cache tk) d (steamId presenceData) presenceData
                   in if fails Call_recordUpdate
                      then ([WroteCache (steamId presenceData)], b\<lparr>db := Some d1\<rparr>,
                            Some (Thrown Call_recordUpdate))
                      else
                        (let d2 = recordUpdate (tick_recordUpdate tk) d1 (steamId presenceData)
                         in if fails Call_getAllServerConfigs
                            then ([WroteCache (steamId presenceData),
                                   WroteRateLimit (steamId presenceData)],
                                  b\<lparr>db := Some d2\<rparr>,
                                  Some (Thrown Call_getAllServerConfigs))
                            else
                              (case fanout (discordManager b) presenceData previousState
                                      (getAllServerConfigs d2) 0 of
                                 (es, sentCount, x) \<Rightarrow>
                                   ([WroteCache (steamId presenceData),
                                     WroteRateLimit (steamId presenceData)]
                                    @ es
                                    @ (if x = None \<and> sentCount > 0
                                       then [Log Info (SentPresenceUpdate
                                                         (personaName presenceData) sentCount)]
                                       else []),
                                    b\<lparr>db := Some d2\<rparr>,
                                    x)))))))"

definition handlePresenceChangeWith ::
  "(call \<Rightarrow> bool) \<Rightarrow> ticks \<Rightarrow> presence \<Rightarrow> bot \<Rightarrow> effect list \<times> bot" where
  "handlePresenceChangeWith fails tk presenceData b =
     (case presenceTryWith fails tk presenceData b of
        (es, b', None) \<Rightarrow> (es, b')
      | (es, b', Some error) \<Rightarrow> (es @ [Log Error (ErrorHandlingPresenceChange error)], b'))"

section \<open>The session manager (src/steam-manager.js)\<close>

text \<open>
  The \<^verbatim>\<open>user\<close> object of the presence service, every field possibly missing, and the
  JavaScript \<^verbatim>\<open>x || default\<close> on it: a missing field, the empty string and the number 0
  all give the default.
\<close>

record steam_user =
  player_name :: "string option"
  u_persona_state :: "int option"
  gameid :: "string option"
  u_game_name :: "string option"

definition orString :: "string option \<Rightarrow> string \<Rightarrow> string" where
  "orString v dflt = (if truthy v then the v else dflt)"

definition orNull :: "string option \<Rightarrow> string option" where
  "orNull v = (if truthy v then v else None)"

definition orZero :: "int option \<Rightarrow> int" where
  "orZero v = (case v of None \<Rightarrow> 0 | Some n \<Rightarrow> n)"

definition presenceOf :: "string \<Rightarrow> steam_user \<Rightarrow> presence" where
  "presenceOf steamIdStr user =
     \<lparr>steamId = steamIdStr,
      personaName = orString (player_name user) ''Unknown'',
      personaState = orZero (u_persona_state user),
      gameId = orNull (gameid user),
      gameName = orNull (u_game_name user)\<rparr>"

text \<open>
  The listener on \<^verbatim>\<open>user\<close> set up by \<^verbatim>\<open>setupEventHandlers\<close>, run in the bot that owns
  the manager: an account outside \<^verbatim>\<open>friendsCache\<close> returns at once.
\<close>

definition onUser :: "ticks \<Rightarrow> string \<Rightarrow> steam_user \<Rightarrow> bot \<Rightarrow> effect list \<times> bot" where
  "onUser tk steamIdStr user b =
     (case steamManager b of
        None \<Rightarrow> ([], b)
      | Some sm \<Rightarrow>
          if \<not> (steamIdStr \<in> friendsCache sm) then ([], b)
          else
            (let presenceData = presenceOf steamIdStr user;
                 line = Log Debug (PresenceUpdateFor (personaName presenceData)
                                     (personaState presenceData) (gameName presenceData))
             in if presenceChange sm
                then (case handlePresenceChange tk presenceData b of
                        (es, b') \<Rightarrow> (line # es, b'))
                else ([line], b)))"

text \<open>The same listener when store calls may throw.\<close>

definition onUserWith ::
  "(call \<Rightarrow> bool) \<Rightarrow> ticks \<Rightarrow> string \<Rightarrow> steam_user \<Rightarrow> bot \<Rightarrow> effect list \<times> bot" where
  "onUserWith fails tk steamIdStr user b =
     (case steamManager b of
        None \<Rightarrow> ([], b)
      | Some sm \<Rightarrow>
          if \<not> (steamIdStr \<in> friendsCache sm) then ([], b)
          else
            (let presenceData = presenceOf steamIdStr user;
                 line = Log Debug (PresenceUpdateFor (personaName presenceData)
                                     (personaState presenceData) (gameName presenceData))
             in if presenceChange sm
                then (case handlePresenceChangeWith fails tk presenceData b of
                        (es, b') \<Rightarrow> (line # es, b'))
                else ([line], b)))"

datatype relationship = Friend | NoRelationship | OtherRelationship

text \<open>The listener on \<^verbatim>\<open>friendRelationship\<close>.\<close>

definition onFriendRelationship ::
  "string \<Rightarrow> relationship \<Rightarrow> steam_manager \<Rightarrow> effect list \<times> steam_manager" where
  "onFriendRelationship steamIdStr rel sm =
     (case rel of
        Friend \<Rightarrow>
          ([Log Info (AddedFriend steamIdStr)],
           sm\<lparr>friendsCache := insert steamIdStr (friendsCache sm)\<rparr>)
      | NoRelationship \<Rightarrow>
          ([Log Info (RemovedFriend steamIdStr)],
           sm\<lparr>friendsCache := friendsCache sm - {steamIdStr}\<rparr>)
      | OtherRelationship \<Rightarrow> ([], sm))"

text \<open>\<^verbatim>\<open>logout\<close>: the effects, and the exception if \<^verbatim>\<open>client.logOff\<close> throws.\<close>

definition logout :: "(call \<Rightarrow> bool) \<Rightarrow> steam_manager \<Rightarrow> effect list \<times> exn option" where
  "logout fails sm =
     (if isLoggedIn sm
      then (if fails Call_logOff then ([SteamLogOff], Some (Thrown Call_logOff))
            else ([SteamLogOff, Log Info LoggedOutOfSteam], None))
      else ([], None))"

subsection \<open>Login\<close>

text \<open>
  \<^verbatim>\<open>login\<close> attaches three listeners and calls \<^verbatim>\<open>logOn\<close>; what happens next is driven by
  the events of the client. \<^verbatim>\<open>SteamTotp.generateAuthCode(secret)\<close> depends on the secret
  and on the clock; it is the parameter \<open>totp\<close>, applied to the secret and to the time of
  the call.
\<close>

datatype eresult = InvalidPassword | AccountLogonDenied | TwoFactorCodeMismatch | OtherResult

datatype client_event = LoggedOn | ClientError eresult | SteamGuard bool

datatype login_error = SteamError eresult | SteamGuardCodeRequired

datatype login_outcome = Pending | Resolved | Rejected login_error

text \<open>
  The state of one call of \<^verbatim>\<open>login\<close>: whether its listeners are still attached
  (\<^verbatim>\<open>cleanup\<close> removes them), how its promise stands, and \<^verbatim>\<open>isLoggedIn\<close>.
\<close>

record login_state =
  listening :: bool
  outcome :: login_outcome
  loggedIn :: bool

definition loginStart ::
  "(string \<Rightarrow> int \<Rightarrow> string) \<Rightarrow> steam_config \<Rightarrow> int \<Rightarrow> effect list \<times> login_state" where
  "loginStart totp cfg now =
     ((if truthy (sharedSecret cfg)
       then [Log Info GeneratedCodeFromSecret, Log Info AttemptingLogin,
             ClientLogOn (username cfg) (password cfg)
               (Some (totp (the (sharedSecret cfg)) now))]
       else if truthy (twoFactorCode cfg)
       then [Log Info UsingProvidedCode, Log Info AttemptingLogin,
             ClientLogOn (username cfg) (password cfg) (twoFactorCode cfg)]
       else [Log Info AttemptingLogin, ClientLogOn (username cfg) (password cfg) None]),
      \<lparr>listening = True, outcome = Pending, loggedIn = False\<rparr>)"

definition onError :: "eresult \<Rightarrow> login_state \<Rightarrow> effect list \<times> login_state" where
  "onError err st =
     ([Log Error SteamLoginError]
      @ (if err = InvalidPassword then [Log Error InvalidCredentialsLine]
         else if err = AccountLogonDenied \<or> err = TwoFactorCodeMismatch
         then [Log Error TwoFactorRequiredLine, Log Error SharedSecretHintLine]
         else []),
      st\<lparr>listening := False, outcome := Rejected (SteamError err)\<rparr>)"

definition onSteamGuard ::
  "(string \<Rightarrow> int \<Rightarrow> string) \<Rightarrow> steam_config \<Rightarrow> int \<Rightarrow> bool \<Rightarrow> login_state
     \<Rightarrow> effect list \<times> login_state" where
  "onSteamGuard totp cfg now lastCodeWrong st =
     ((if lastCodeWrong then [Log Error PreviousCodeIncorrect] else [])
      @ (if truthy (sharedSecret cfg)
         then [Log Info GeneratedNewCodeFromSecret,
               GuardCallback (totp (the (sharedSecret cfg)) now)]
         else []),
      if truthy (sharedSecret cfg) then st
      else st\<lparr>listening := False, outcome := Rejected SteamGuardCodeRequired\<rparr>)"

text \<open>One event of the client at time \<open>now\<close>; after \<^verbatim>\<open>cleanup\<close> no listener of this login is left.\<close>

definition loginEvent ::
  "(string \<Rightarrow> int \<Rightarrow> string) \<Rightarrow> steam_config \<Rightarrow> int \<times> client_event \<Rightarrow> login_state
     \<Rightarrow> effect list \<times> login_state" where
  "loginEvent totp cfg ev st =
     (if \<not> listening st then ([], st)
      else case snd ev of
             LoggedOn \<Rightarrow>
               ([Log Info LoggedIntoSteam, SetPersonaOnline, GamesPlayedNone],
                st\<lparr>listening := False, outcome := Resolved, loggedIn := True\<rparr>)
           | ClientError err \<Rightarrow> onError err st
           | SteamGuard lastCodeWrong \<Rightarrow> onSteamGuard totp cfg (fst ev) lastCodeWrong st)"

fun loginEvents ::
  "(string \<Rightarrow> int \<Rightarrow> string) \<Rightarrow> steam_config \<Rightarrow> (int \<times> client_event) list \<Rightarrow> login_state
     \<Rightarrow> effect list \<times> login_state" where
  "loginEvents totp cfg [] st = ([], st)"
| "loginEvents totp cfg (ev # evs) st =
     (case loginEvent totp cfg ev st of
        (es, st') \<Rightarrow> (case loginEvents totp cfg evs st' of (es', st'') \<Rightarrow> (es @ es', st'')))"

text \<open>\<^verbatim>\<open>login\<close> called at time \<open>t0\<close>, followed by the events of the client.\<close>

definition login ::
  "(string \<Rightarrow> int \<Rightarrow> string) \<Rightarrow> steam_config \<Rightarrow> int \<Rightarrow> (int \<times> client_event) list
     \<Rightarrow> effect list \<times> login_state" where
  "login totp cfg t0 evs =
     (case loginStart totp cfg t0 of
        (es, st) \<Rightarrow> (case loginEvents totp cfg evs st of (es', st') \<Rightarrow> (es @ es', st')))"

section \<open>Shutdown (setupShutdownHandlers)\<close>

text \<open>\<^verbatim>\<open>destroy\<close> of \<^verbatim>\<open>src/discord-manager.js\<close>: the awaited \<^verbatim>\<open>client.destroy\<close> may reject.\<close>

definition destroy :: "(call \<Rightarrow> bool) \<Rightarrow> effect list \<times> exn option" where
  "destroy fails =
     (if fails Call_destroy then ([DiscordDestroy], Some (Thrown Call_destroy))
      else ([DiscordDestroy, Log Info DiscordClientDestroyed], None))"

text \<open>
  The \<^verbatim>\<open>try\<close> block of the closure \<^verbatim>\<open>shutdown\<close>: logout, destroy and close, each only for a
  collaborator that is there, then the last log line and \<^verbatim>\<open>process.exit(0)\<close>; the block ends
  at the first call that throws.
\<close>

definition shutdownTry :: "(call \<Rightarrow> bool) \<Rightarrow> bot \<Rightarrow> effect list \<times> exn option" where
  "shutdownTry fails b =
     (case (case steamManager b of None \<Rightarrow> ([], None) | Some sm \<Rightarrow> logout fails sm) of
        (es1, Some error) \<Rightarrow> (es1, Some error)
      | (es1, None) \<Rightarrow>
          (case (case discordManager b of None \<Rightarrow> ([], None) | Some dm \<Rightarrow> destroy fails) of
             (es2, Some error) \<Rightarrow> (es1 @ es2, Some error)
           | (es2, None) \<Rightarrow>
               (case db b of
                  None \<Rightarrow> (es1 @ es2 @ [Log Info ShutdownComplete, ProcessExit 0], None)
                | Some d \<Rightarrow>
                    if fails Call_close
                    then (es1 @ es2 @ [StoreClose], Some (Thrown Call_close))
                    else (es1 @ es2 @ [StoreClose, Log Info ShutdownComplete, ProcessExit 0],
                          None))))"

text \<open>
  The closure \<^verbatim>\<open>shutdown\<close>: nothing when a shutdown is under way; otherwise the flag, the
  first log line, the \<^verbatim>\<open>try\<close> block, and in its \<^verbatim>\<open>catch\<close> an error line and
  \<^verbatim>\<open>process.exit(1)\<close>. The four process events registered after it, and the presence event,
  make up what the process reacts to.
\<close>

definition shutdown :: "(call \<Rightarrow> bool) \<Rightarrow> string \<Rightarrow> bot \<Rightarrow> effect list \<times> bot" where
  "shutdown fails signal b =
     (if isShuttingDown b then ([], b)
      else
        (case shutdownTry fails b of
           (es, None) \<Rightarrow>
             (Log Info (ReceivedSignal signal) # es, b\<lparr>isShuttingDown := True\<rparr>)
         | (es, Some error) \<Rightarrow>
             (Log Info (ReceivedSignal signal) # es
                @ [Log Error (ErrorDuringShutdown error), ProcessExit 1],
              b\<lparr>isShuttingDown := True\<rparr>)))"

datatype process_event =
    SIGINT
  | SIGTERM
  | UncaughtException
  | UnhandledRejection
  | UserEvent string steam_user

definition dispatch ::
  "(call \<Rightarrow> bool) \<Rightarrow> ticks \<Rightarrow> process_event \<Rightarrow> bot \<Rightarrow> effect list \<times> bot" where
  "dispatch fails tk ev b =
     (case ev of
        SIGINT \<Rightarrow> shutdown fails ''SIGINT'' b
      | SIGTERM \<Rightarrow> shutdown fails ''SIGTERM'' b
      | UncaughtException \<Rightarrow>
          (case shutdown fails ''uncaughtException'' b of
             (es, b') \<Rightarrow> (Log Error UncaughtExceptionLine # es, b'))
      | UnhandledRejection \<Rightarrow>
          (case shutdown fails ''unhandledRejection'' b of
             (es, b') \<Rightarrow> (Log Error UnhandledRejectionLine # es, b'))
      | UserEvent steamIdStr user \<Rightarrow> onUserWith fails tk steamIdStr user b)"

definition isShutdownEffect :: "effect \<Rightarrow> bool" where
  "isShutdownEffect e =
     (case e of
        SteamLogOff \<Rightarrow> True
      | DiscordDestroy \<Rightarrow> True
      | StoreClose \<Rightarrow> True
      | ProcessExit code \<Rightarrow> True
      | _ \<Rightarrow> False)"

section \<open>The link command\<close>

datatype link_reply =
    InvalidIdentifier
  | NotFriendsWithBot string
  | AlreadyLinkedTo string
  | LinkedToAnotherUser
  | SuccessfullyLinked string

text \<open>
  \<^verbatim>\<open>handleLink\<close> for the user \<open>discordId\<close> at time \<open>now\<close>: the reply it edits in, the
  effects, and the store afterwards.
\<close>

definition handleLink ::
  "int \<Rightarrow> string \<Rightarrow> string \<Rightarrow> database \<Rightarrow> steam_manager
     \<Rightarrow> link_reply \<times> effect list \<times> database" where
  "handleLink now identifier discordId d sm =
     (case parseSteamIdentifier identifier of
        Inl error \<Rightarrow> (InvalidIdentifier, [], d)
      | Inr steamId64 \<Rightarrow>
          if \<not> isFriend sm steamId64 then (NotFriendsWithBot steamId64, [], d)
          else if (case getUserMapping d discordId of
                     None \<Rightarrow> False
                   | Some existing \<Rightarrow> um_steam_id existing \<noteq> steamId64)
          then (AlreadyLinkedTo (um_steam_id (the (getUserMapping d discordId))), [], d)
          else if (case getMappingBySteamId d steamId64 of
                     None \<Rightarrow> False
                   | Some existingSteam \<Rightarrow> um_discord_id existingSteam \<noteq> discordId)
          then (LinkedToAnotherUser, [], d)
          else (SuccessfullyLinked steamId64,
                [Log Info (LinkedDiscordUser discordId steamId64)],
                linkUser now d discordId steamId64))"

text \<open>The replies that stand for the spec's \<^verbatim>\<open>AlreadyLinkedOther\<close>.\<close>

definition isAlreadyLinkedOther :: "link_reply \<Rightarrow> bool" where
  "isAlreadyLinkedOther r =
     (case r of AlreadyLinkedTo s \<Rightarrow> True | LinkedToAnotherUser \<Rightarrow> True | _ \<Rightarrow> False)"

section \<open>Observations on a list of effects\<close>

text \<open>The channels a send was attempted on, and the channels a message reached, in order.\<close>

fun attempted :: "effect list \<Rightarrow> string list" where
  "attempted [] = []"
| "attempted (ChannelFetch c # es) = c # attempted es"
| "attempted (e # es) = attempted es"

fun delivered :: "effect list \<Rightarrow> string list" where
  "delivered [] = []"
| "delivered (Delivered c p prev # es) = c # delivered es"
| "delivered (e # es) = delivered es"

fun callbacks :: "effect list \<Rightarrow> string list" where
  "callbacks [] = []"
| "callbacks (GuardCallback code # es) = code # callbacks es"
| "callbacks (e # es) = callbacks es"

text \<open>
  The times of the \<^verbatim>\<open>steamGuard\<close> events that come before the first \<^verbatim>\<open>loggedOn\<close> or
  \<^verbatim>\<open>error\<close> event: the challenges a login meets while its promise is pending.
\<close>

fun challengesBefore :: "(int \<times> client_event) list \<Rightarrow> int list" where
  "challengesBefore [] = []"
| "challengesBefore ((t, SteamGuard lastCodeWrong) # evs) = t # challengesBefore evs"
| "challengesBefore (ev # evs) = []"

definition isStoreWrite :: "effect \<Rightarrow> bool" where
  "isStoreWrite e = (case e of WroteCache s \<Rightarrow> True | WroteRateLimit s \<Rightarrow> True | _ \<Rightarrow> False)"

text \<open>Whether a send to the channel goes through.\<close>

definition delivers :: "discord_manager \<Rightarrow> string \<Rightarrow> bool" where
  "delivers dm channelId =
     (case channels dm channelId of
        FetchRejects \<Rightarrow> False
      | Fetched None \<Rightarrow> False
      | Fetched (Some ch) \<Rightarrow> isTextBased ch \<and> sendResolves ch)"

text \<open>The cache row that \<^const>\<open>updateSteamCache\<close> writes for a snapshot at time \<open>t\<close>.\<close>

definition rowOf :: "int \<Rightarrow> presence \<Rightarrow> steam_cache_row" where
  "rowOf t data =
     \<lparr>persona_name = personaName data, game_name = gameName data, game_id = gameId data,
      persona_state = personaState data, last_updated = t\<rparr>"

text \<open>
  The condition under which \<^verbatim>\<open>handlePresenceChange\<close> goes past its "no meaningful change"
  return: there is no cached row, or \<^verbatim>\<open>stateChanged\<close> or \<^verbatim>\<open>gameChanged\<close> holds.
\<close>

definition changed :: "database \<Rightarrow> presence \<Rightarrow> bool" where
  "changed d data =
     (case getSteamCache d (steamId data) of
        None \<Rightarrow> True
      | Some prev \<Rightarrow>
          persona_state prev \<noteq> personaState data \<or> game_name prev \<noteq> gameName data)"

text \<open>The cache row and the rate-limit row of an account in the store of a bot.\<close>

definition cacheOf :: "bot \<Rightarrow> string \<Rightarrow> steam_cache_row option" where
  "cacheOf b sid = (case db b of None \<Rightarrow> None | Some d \<Rightarrow> getSteamCache d sid)"

definition rateLimitOf :: "bot \<Rightarrow> string \<Rightarrow> rate_limit option" where
  "rateLimitOf b sid = (case db b of None \<Rightarrow> None | Some d \<Rightarrow> rate_limits d sid)"

section \<open>Example states\<close>

text \<open>
  Account \<open>X\<close> linked to user \<open>U\<close>, no cache row and no rate-limit row, two destinations of
  which the first rejects the fetch and the second accepts the message.
\<close>

definition ex_db :: database where
  "ex_db =
     \<lparr>user_mappings =
        [\<lparr>um_discord_id = ''U'', um_steam_id = ''76561198000000001'',
          um_linked_at = 0, um_updated_at = 0\<rparr>],
      server_configs =
        [\<lparr>sc_guild_id = ''G1'', sc_update_channel_id = ''D1'',
          sc_created_at = 0, sc_updated_at = 0\<rparr>,
         \<lparr>sc_guild_id = ''G2'', sc_update_channel_id = ''D2'',
          sc_created_at = 0, sc_updated_at = 0\<rparr>],
      rate_limits = Map.empty,
      steam_cache = Map.empty\<rparr>"

definition ex_discord :: discord_manager where
  "ex_discord =
     \<lparr>channels = (\<lambda>c. if c = ''D2''
                         then Fetched (Some \<lparr>isTextBased = True, sendResolves = True\<rparr>)
                         else FetchRejects)\<rparr>"

definition ex_steam :: steam_manager where
  "ex_steam =
     \<lparr>config = \<lparr>username = ''bot'', password = ''pw'',
                 sharedSecret = Some ''seed'', twoFactorCode = None\<rparr>,
      friendsCache = {''76561198000000001''},
      isLoggedIn = True,
      presenceChange = True\<rparr>"

definition ex_bot :: bot where
  "ex_bot =
     \<lparr>db = Some ex_db, steamManager = Some ex_steam,
      discordManager = Some ex_discord, isShuttingDown = False\<rparr>"

definition ex_online :: presence where
  "ex_online =
     \<lparr>steamId = ''76561198000000001'', personaName = ''X'', personaState = 1,
      gameId = None, gameName = None\<rparr>"

definition ex_playing :: presence where
  "ex_playing =
     \<lparr>steamId = ''76561198000000001'', personaName = ''X'', personaState = 1,
      gameId = Some ''440'', gameName = Some ''Game A''\<rparr>"

definition ex_away :: presence where
  "ex_away =
     \<lparr>steamId = ''76561198000000001'', personaName = ''X'', personaState = 3,
      gameId = None, gameName = None\<rparr>"

text \<open>The same snapshot as \<^const>\<open>ex_online\<close> under a new display name.\<close>

definition ex_renamed :: presence where
  "ex_renamed =
     \<lparr>steamId = ''76561198000000001'', personaName = ''Y'', personaState = 1,
      gameId = None, gameName = None\<rparr>"

text \<open>
  The store and the bot after \<^const>\<open>ex_online\<close> has been handled at time 0: a cache row for
  \<open>X\<close> and a first rate-limit row.
\<close>

definition ex_db_seen :: database where
  "ex_db_seen =
     ex_db\<lparr>rate_limits := [''76561198000000001'' \<mapsto> \<lparr>last_update = 0, update_count = 1\<rparr>],
           steam_cache := [''76561198000000001'' \<mapsto> rowOf 0 ex_online]\<rparr>"

definition ex_bot_seen :: bot where
  "ex_bot_seen = ex_bot\<lparr>db := Some ex_db_seen\<rparr>"

definition ex_link :: user_mapping where
  "ex_link =
     \<lparr>um_discord_id = ''U'', um_steam_id = ''76561198000000001'',
      um_linked_at = 0, um_updated_at = 0\<rparr>"

text \<open>What the presence service reports for \<^const>\<open>ex_online\<close>.\<close>

definition ex_user :: steam_user where
  "ex_user =
     \<lparr>player_name = Some ''X'', u_persona_state = Some 1, gameid = None, u_game_name = None\<rparr>"

text \<open>No call throws, and only the cache write throws (a full or locked database).\<close>

definition ex_none :: "call \<Rightarrow> bool" where
  "ex_none c = False"

definition ex_cache_write_fails :: "call \<Rightarrow> bool" where
  "ex_cache_write_fails c = (c = Call_updateSteamCache)"

text \<open>A one-time code that shows the secret and the 30-second window it was derived in.\<close>

definition ex_totp :: "string \<Rightarrow> int \<Rightarrow> string" where
  "ex_totp secret t =
     secret @ (if t div 30 = 0 then ''/0'' else if t div 30 = 1 then ''/1'' else ''/2'')"

section \<open>Facts about the parser and the link command\<close>

lemma matchAfter_cls: "matchAfter lit cls s = Some r \<Longrightarrow> r \<noteq> [] \<and> list_all cls r"
  by (induction s) (auto split: if_splits simp: list_all_iff dest: set_takeWhileD)

lemma testSteamID64_digits: "testSteamID64 s \<Longrightarrow> s \<noteq> [] \<and> list_all isDigit s"
proof -
  assume a: "testSteamID64 s"
  have "s = take 7 s @ drop 7 s" by simp
  moreover have "list_all isDigit (take 7 s)" using a by (simp add: testSteamID64_def isDigit_def)
  moreover have "list_all isDigit (drop 7 s)" using a by (simp add: testSteamID64_def)
  ultimately have "list_all isDigit s" by (metis list_all_append)
  moreover have "s \<noteq> []" using a by (auto simp: testSteamID64_def)
  ultimately show ?thesis by simp
qed

lemma testSteamID64_iff:
  "testSteamID64 s \<longleftrightarrow> length s = 17 \<and> take 7 s = ''7656119'' \<and> list_all isDigit s"
proof
  assume a: "testSteamID64 s"
  then have "length s \<ge> 7" by (auto simp: testSteamID64_def)
  with a have "length s = 17" by (auto simp: testSteamID64_def)
  with a testSteamID64_digits[OF a] show "length s = 17 \<and> take 7 s = ''7656119'' \<and> list_all isDigit s"
    by (simp add: testSteamID64_def)
next
  assume b: "length s = 17 \<and> take 7 s = ''7656119'' \<and> list_all isDigit s"
  then have "list_all isDigit (drop 7 s)"
    by (metis append_take_drop_id list_all_append)
  with b show "testSteamID64 s" by (simp add: testSteamID64_def)
qed

lemma parse_cases:
  "parseSteamIdentifier s =
     (if testSteamID64 (trim s) then Inr (trim s)
      else case profileMatch (trim s) of
             Some digits \<Rightarrow> Inr digits
           | None \<Rightarrow> Inl (if customMatch (trim s) \<noteq> None then CustomUrlNotSupported else InvalidFormat))"
  by (auto simp: parseSteamIdentifier_def Let_def split: option.splits)

lemma parse_numeric: "parseSteamIdentifier s = Inr r \<Longrightarrow> r \<noteq> [] \<and> list_all isDigit r"
  unfolding parseSteamIdentifier_def Let_def profileMatch_def
  by (auto split: if_splits option.splits dest: testSteamID64_digits matchAfter_cls)

lemma handleLink_cases:
  "handleLink now s u d sm = (reply, es, d') \<Longrightarrow>
     (\<exists>r. reply = SuccessfullyLinked r \<and> parseSteamIdentifier s = Inr r \<and> d' = linkUser now d u r)
     \<or> ((\<forall>r. reply \<noteq> SuccessfullyLinked r) \<and> d' = d)"
  unfolding handleLink_def
  by (auto split: sum.splits if_splits)

lemma matchAfter_complete:
  "cls c \<Longrightarrow> matchAfter lit cls (pre @ lit @ c # post) \<noteq> None"
proof (induction pre)
  case Nil
  then show ?case by (cases lit) auto
next
  case (Cons x pre)
  then show ?case by simp
qed

lemma matchAfter_sound:
  "matchAfter lit cls s = Some r \<Longrightarrow>
     \<exists>pre post. s = pre @ lit @ r @ post \<and> (post = [] \<or> \<not> cls (hd post))"
proof (induction s)
  case Nil
  then show ?case by simp
next
  case (Cons x xs)
  show ?case
  proof (cases "take (length lit) (x # xs) = lit
                  \<and> takeWhile cls (drop (length lit) (x # xs)) \<noteq> []")
    case True
    with Cons.prems have r: "r = takeWhile cls (drop (length lit) (x # xs))" by simp
    let ?rest = "drop (length lit) (x # xs)"
    have "x # xs = take (length lit) (x # xs) @ ?rest" by simp
    also have "\<dots> = lit @ takeWhile cls ?rest @ dropWhile cls ?rest" using True by simp
    finally have "x # xs = [] @ lit @ r @ dropWhile cls ?rest" using r by simp
    moreover have "dropWhile cls ?rest = [] \<or> \<not> cls (hd (dropWhile cls ?rest))"
      using hd_dropWhile[of cls ?rest] by blast
    ultimately show ?thesis by blast
  next
    case False
    with Cons.prems have "matchAfter lit cls xs = Some r" by (simp split: if_splits)
    from Cons.IH[OF this] obtain pre post
      where "xs = pre @ lit @ r @ post" "post = [] \<or> \<not> cls (hd post)" by blast
    then have "x # xs = (x # pre) @ lit @ r @ post \<and> (post = [] \<or> \<not> cls (hd post))" by simp
    then show ?thesis by blast
  qed
qed

lemma linkUser_keeps_unique:
  assumes "distinct (map um_discord_id (user_mappings d))"
    and "distinct (map um_steam_id (user_mappings d))"
  shows "distinct (map um_discord_id (user_mappings (linkUser now d u sid)))
         \<and> distinct (map um_steam_id (user_mappings (linkUser now d u sid)))"
  using assms by (auto simp: linkUser_def distinct_map_filter)

section \<open>Facts about the fanout and the pipeline\<close>

lemma fanout_Some_no_exn: "snd (snd (fanout (Some dm) p prev cfgs n)) = None"
  by (induction cfgs arbitrary: n) (simp_all add: case_prod_beta)

lemma attempted_append: "attempted (xs @ ys) = attempted xs @ attempted ys"
  by (induction xs rule: attempted.induct) auto

lemma delivered_append: "delivered (xs @ ys) = delivered xs @ delivered ys"
  by (induction xs rule: delivered.induct) auto

lemma send_attempted: "attempted (fst (sendPresenceUpdate dm c p prev)) = [c]"
  by (auto simp: sendPresenceUpdate_def split: fetch_result.splits option.splits)

lemma send_delivered:
  "delivered (fst (sendPresenceUpdate dm c p prev)) = (if delivers dm c then [c] else [])"
  by (auto simp: sendPresenceUpdate_def delivers_def split: fetch_result.splits option.splits)

lemma send_success: "snd (sendPresenceUpdate dm c p prev) = delivers dm c"
  by (auto simp: sendPresenceUpdate_def delivers_def split: fetch_result.splits option.splits)

lemma send_no_write: "e \<in> set (fst (sendPresenceUpdate dm c p prev)) \<Longrightarrow> \<not> isStoreWrite e \<and> \<not> isShutdownEffect e"
  by (auto simp: sendPresenceUpdate_def isStoreWrite_def isShutdownEffect_def split: fetch_result.splits option.splits if_splits)

lemma fanout_attempted:
  "attempted (fst (fanout (Some dm) p prev cfgs n)) = map sc_update_channel_id cfgs"
  by (induction cfgs arbitrary: n)
     (simp_all add: case_prod_beta attempted_append send_attempted)

lemma fanout_delivered:
  "delivered (fst (fanout (Some dm) p prev cfgs n))
     = filter (delivers dm) (map sc_update_channel_id cfgs)"
  by (induction cfgs arbitrary: n)
     (simp_all add: case_prod_beta delivered_append send_delivered)

lemma fanout_count:
  "fst (snd (fanout (Some dm) p prev cfgs n))
     = n + length (filter (delivers dm) (map sc_update_channel_id cfgs))"
  by (induction cfgs arbitrary: n)
     (simp_all add: case_prod_beta send_success)

lemma fanout_effects:
  "e \<in> set (fst (fanout dmo p prev cfgs n)) \<Longrightarrow> \<not> isStoreWrite e \<and> \<not> isShutdownEffect e"
proof (induction cfgs arbitrary: n)
  case Nil
  then show ?case by simp
next
  case (Cons c cs)
  show ?case
  proof (cases dmo)
    case None
    with Cons.prems show ?thesis by simp
  next
    case (Some dm)
    let ?r = "sendPresenceUpdate dm (sc_update_channel_id c) p prev"
    from Cons.prems Some
    have "e \<in> set (fst ?r) \<or> e \<in> set (fst (fanout dmo p prev cs (if snd ?r then n + 1 else n)))"
      by (simp add: case_prod_beta)
    then show ?thesis
    proof
      assume "e \<in> set (fst ?r)"
      then show ?thesis by (rule send_no_write)
    next
      assume "e \<in> set (fst (fanout dmo p prev cs (if snd ?r then n + 1 else n)))"
      then show ?thesis by (rule Cons.IH)
    qed
  qed
qed

text \<open>The three ways through the try block for a linked account.\<close>

lemma presenceTry_unlinked:
  "db b = Some d \<Longrightarrow> getMappingBySteamId d (steamId p) = None \<Longrightarrow> presenceTry tk p b = ([], b, None)"
  by (simp add: presenceTry_def)

lemma presenceTry_unchanged:
  "db b = Some d \<Longrightarrow> getMappingBySteamId d (steamId p) = Some m \<Longrightarrow> \<not> changed d p
     \<Longrightarrow> presenceTry tk p b = ([], b, None)"
  by (auto simp: presenceTry_def changed_def Let_def split: option.splits)

lemma presenceTry_limited:
  "db b = Some d \<Longrightarrow> getMappingBySteamId d (steamId p) = Some m \<Longrightarrow> changed d p
     \<Longrightarrow> \<not> canUpdate (tick_canUpdate tk) d (steamId p) 300
     \<Longrightarrow> presenceTry tk p b =
           ([Log Debug (RateLimitedUpdate (steamId p)), WroteCache (steamId p)],
            b\<lparr>db := Some (updateSteamCache (tick_cache tk) d (steamId p) p)\<rparr>, None)"
  by (auto simp: presenceTry_def changed_def Let_def split: option.splits)

lemma presenceTry_eligible:
  "db b = Some d \<Longrightarrow> getMappingBySteamId d (steamId p) = Some m \<Longrightarrow> changed d p
     \<Longrightarrow> canUpdate (tick_canUpdate tk) d (steamId p) 300
     \<Longrightarrow> fanout (discordManager b) p (getSteamCache d (steamId p)) (server_configs d) 0 = (es, n, x)
     \<Longrightarrow> presenceTry tk p b =
           ([WroteCache (steamId p), WroteRateLimit (steamId p)] @ es
              @ (if x = None \<and> n > 0 then [Log Info (SentPresenceUpdate (personaName p) n)] else []),
            b\<lparr>db := Some (recordUpdate (tick_recordUpdate tk)
                            (updateSteamCache (tick_cache tk) d (steamId p) p) (steamId p))\<rparr>, x)"
  by (auto simp: presenceTry_def changed_def Let_def getAllServerConfigs_def recordUpdate_def updateSteamCache_def split: option.splits)

lemma cache_after_update:
  "getSteamCache (updateSteamCache t d sid p) sid = Some (rowOf t p)"
  by (simp add: getSteamCache_def updateSteamCache_def rowOf_def)

lemma cache_after_record:
  "getSteamCache (recordUpdate t d sid) sid' = getSteamCache d sid'"
  by (simp add: getSteamCache_def recordUpdate_def)

lemma mapping_after_update:
  "getMappingBySteamId (updateSteamCache t d sid p) s = getMappingBySteamId d s"
  by (simp add: getMappingBySteamId_def updateSteamCache_def)

lemma mapping_after_record:
  "getMappingBySteamId (recordUpdate t d sid) s = getMappingBySteamId d s"
  by (simp add: getMappingBySteamId_def recordUpdate_def)

lemma rowOf_not_changed:
  "getSteamCache d (steamId p) = Some (rowOf t p) \<Longrightarrow> \<not> changed d p"
  by (simp add: changed_def rowOf_def)

lemma handle_unlinked:
  "db b = Some d \<Longrightarrow> getMappingBySteamId d (steamId p) = None
     \<Longrightarrow> handlePresenceChange tk p b = ([], b)"
  by (simp add: handlePresenceChange_def presenceTry_unlinked)

lemma handle_unchanged:
  "db b = Some d \<Longrightarrow> getMappingBySteamId d (steamId p) = Some m \<Longrightarrow> \<not> changed d p
     \<Longrightarrow> handlePresenceChange tk p b = ([], b)"
  by (simp add: handlePresenceChange_def presenceTry_unchanged)

lemma handle_limited:
  "db b = Some d \<Longrightarrow> getMappingBySteamId d (steamId p) = Some m \<Longrightarrow> changed d p
     \<Longrightarrow> \<not> canUpdate (tick_canUpdate tk) d (steamId p) 300
     \<Longrightarrow> handlePresenceChange tk p b =
           ([Log Debug (RateLimitedUpdate (steamId p)), WroteCache (steamId p)],
            b\<lparr>db := Some (updateSteamCache (tick_cache tk) d (steamId p) p)\<rparr>)"
  by (simp add: handlePresenceChange_def presenceTry_limited)

lemma handle_eligible_store:
  assumes "db b = Some d" and "getMappingBySteamId d (steamId p) = Some m" and "changed d p"
    and "canUpdate (tick_canUpdate tk) d (steamId p) 300"
  shows "snd (handlePresenceChange tk p b) =
           b\<lparr>db := Some (recordUpdate (tick_recordUpdate tk)
                           (updateSteamCache (tick_cache tk) d (steamId p) p) (steamId p))\<rparr>"
proof -
  obtain es n x
    where f: "fanout (discordManager b) p (getSteamCache d (steamId p)) (server_configs d) 0
                = (es, n, x)"
    by (cases "fanout (discordManager b) p (getSteamCache d (steamId p)) (server_configs d) 0")
       auto
  show ?thesis
    using presenceTry_eligible[OF assms f]
    by (cases x) (simp_all add: handlePresenceChange_def)
qed

lemma handle_eligible_effects:
  assumes "db b = Some d" and "discordManager b = Some dm"
    and "getMappingBySteamId d (steamId p) = Some m" and "changed d p"
    and "canUpdate (tick_canUpdate tk) d (steamId p) 300"
  shows "fst (handlePresenceChange tk p b) =
           WroteCache (steamId p) # WroteRateLimit (steamId p)
           # fst (fanout (Some dm) p (getSteamCache d (steamId p)) (server_configs d) 0)
           @ (if fst (snd (fanout (Some dm) p (getSteamCache d (steamId p)) (server_configs d) 0)) > 0
              then [Log Info (SentPresenceUpdate (personaName p)
                      (fst (snd (fanout (Some dm) p (getSteamCache d (steamId p))
                                   (server_configs d) 0))))]
              else [])"
proof -
  let ?f = "fanout (Some dm) p (getSteamCache d (steamId p)) (server_configs d) 0"
  have x: "snd (snd ?f) = None" by (rule fanout_Some_no_exn)
  have f: "fanout (discordManager b) p (getSteamCache d (steamId p)) (server_configs d) 0
             = (fst ?f, fst (snd ?f), None)"
    using assms(2) x by (metis prod.collapse)
  show ?thesis
    using presenceTry_eligible[OF assms(1) assms(3) assms(4) assms(5) f]
    by (simp add: handlePresenceChange_def)
qed

lemma second_delivery:
  "handlePresenceChange tk' p (snd (handlePresenceChange tk p b)) =
     ((if db b = None then [Log Error (ErrorHandlingPresenceChange (NullDeref ''db''))] else []),
      snd (handlePresenceChange tk p b))"
proof (cases "db b")
  case None
  then show ?thesis by (simp add: handlePresenceChange_def presenceTry_def)
next
  case (Some d)
  show ?thesis
  proof (cases "getMappingBySteamId d (steamId p)")
    case None
    with Some show ?thesis by (simp add: handle_unlinked)
  next
    case (Some m)
    note m = this and d = \<open>db b = Some d\<close>
    show ?thesis
    proof (cases "changed d p")
      case False
      with d m show ?thesis by (simp add: handle_unchanged)
    next
      case True
      show ?thesis
      proof (cases "canUpdate (tick_canUpdate tk) d (steamId p) 300")
        case False
        let ?d1 = "updateSteamCache (tick_cache tk) d (steamId p) p"
        let ?b1 = "b\<lparr>db := Some ?d1\<rparr>"
        have 1: "snd (handlePresenceChange tk p b) = ?b1"
          using handle_limited[OF d m True False] by simp
        have "handlePresenceChange tk' p ?b1 = ([], ?b1)"
          by (rule handle_unchanged[where d = ?d1 and m = m])
             (simp_all add: m mapping_after_update rowOf_not_changed[OF cache_after_update])
        with 1 d show ?thesis by simp
      next
        case can: True
        let ?d2 = "recordUpdate (tick_recordUpdate tk)
                     (updateSteamCache (tick_cache tk) d (steamId p) p) (steamId p)"
        let ?b1 = "b\<lparr>db := Some ?d2\<rparr>"
        have 1: "snd (handlePresenceChange tk p b) = ?b1"
          by (rule handle_eligible_store[OF d m True can])
        have c: "getSteamCache ?d2 (steamId p) = Some (rowOf (tick_cache tk) p)"
          by (simp add: cache_after_record cache_after_update)
        have "handlePresenceChange tk' p ?b1 = ([], ?b1)"
          by (rule handle_unchanged[where d = ?d2 and m = m])
             (simp_all add: m mapping_after_update mapping_after_record rowOf_not_changed[OF c])
        with 1 d show ?thesis by simp
      qed
    qed
  qed
qed

text \<open>With no failing call the general run is the run in which every store call returns.\<close>

lemma presenceTryWith_none: "presenceTryWith (\<lambda>c. False) tk p b = presenceTry tk p b"
  by (simp add: presenceTryWith_def presenceTry_def Let_def split: option.splits)

lemma handlePresenceChangeWith_none:
  "handlePresenceChangeWith (\<lambda>c. False) tk p b = handlePresenceChange tk p b"
  by (simp add: handlePresenceChangeWith_def handlePresenceChange_def presenceTryWith_none)

lemma onUserWith_none: "onUserWith (\<lambda>c. False) tk sid user b = onUser tk sid user b"
  by (simp add: onUserWith_def onUser_def handlePresenceChangeWith_none Let_def
        split: option.splits)

lemma fanout_quiet:
  "\<forall>e \<in> set (fst (fanout dmo p prev cfgs n)). \<not> isShutdownEffect e"
  using fanout_effects by blast

lemma presenceTryWith_quiet:
  "isShuttingDown (fst (snd (presenceTryWith fails tk p b))) = isShuttingDown b
   \<and> (\<forall>e \<in> set (fst (presenceTryWith fails tk p b)). \<not> isShutdownEffect e)"
proof (cases "db b")
  case None
  then show ?thesis by (simp add: presenceTryWith_def)
next
  case (Some d)
  let ?d2 = "recordUpdate (tick_recordUpdate tk)
               (updateSteamCache (tick_cache tk) d (steamId p) p) (steamId p)"
  let ?f = "fanout (discordManager b) p (getSteamCache d (steamId p))
              (getAllServerConfigs ?d2) 0"
  have q: "\<forall>e \<in> set (fst ?f). \<not> isShutdownEffect e" by (rule fanout_quiet)
  have i: "\<not> isShutdownEffect (Log l line)" "\<not> isShutdownEffect (WroteCache s)"
    "\<not> isShutdownEffect (WroteRateLimit s)" for l line s
    by (simp_all add: isShutdownEffect_def)
  show ?thesis
    using Some q
    by (auto simp: presenceTryWith_def Let_def case_prod_beta i split: option.splits)
qed

section \<open>Facts about the shutdown\<close>

lemma shutdownTry_effects:
  "filter isShutdownEffect (fst (shutdown fails signal b))
     = filter isShutdownEffect (fst (shutdown fails signal' b))
   \<and> snd (shutdown fails signal b) = snd (shutdown fails signal' b)"
  by (simp add: shutdown_def isShutdownEffect_def case_prod_beta split: option.splits)

lemma shutdown_exits:
  "\<not> isShuttingDown b \<Longrightarrow>
     isShuttingDown (snd (shutdown fails signal b))
     \<and> last (fst (shutdown fails signal b))
         = ProcessExit (case snd (shutdownTry fails b) of None \<Rightarrow> 0 | Some error \<Rightarrow> 1)"
  by (auto simp: shutdown_def shutdownTry_def logout_def destroy_def case_prod_beta
        split: option.splits)

lemma shutdown_sequence:
  "\<not> isShuttingDown b \<Longrightarrow> steamManager b = Some sm \<Longrightarrow> isLoggedIn sm
     \<Longrightarrow> discordManager b = Some dm \<Longrightarrow> db b = Some d
     \<Longrightarrow> \<not> fails Call_logOff \<Longrightarrow> \<not> fails Call_destroy \<Longrightarrow> \<not> fails Call_close
     \<Longrightarrow> filter isShutdownEffect (fst (shutdown fails signal b))
           = [SteamLogOff, DiscordDestroy, StoreClose, ProcessExit 0]"
  by (simp add: shutdown_def shutdownTry_def logout_def destroy_def isShutdownEffect_def)

section \<open>Facts about the login\<close>

lemma callbacks_append: "callbacks (xs @ ys) = callbacks xs @ callbacks ys"
  by (induction xs rule: callbacks.induct) auto

lemma loginEvents_detached:
  "\<not> listening st \<Longrightarrow> loginEvents totp cfg evs st = ([], st)"
  by (induction evs) (simp_all add: loginEvent_def)

lemma loginEvents_seeded:
  assumes "sharedSecret cfg = Some secret" and "secret \<noteq> []"
  shows "listening st \<Longrightarrow>
           callbacks (fst (loginEvents totp cfg evs st)) = map (totp secret) (challengesBefore evs)"
proof (induction evs arbitrary: st)
  case Nil
  show ?case by simp
next
  case (Cons ev evs)
  obtain t e where ev: "ev = (t, e)" by (cases ev)
  show ?case
  proof (cases e)
    case LoggedOn
    with ev Cons.prems show ?thesis
      by (simp add: loginEvent_def loginEvents_detached)
  next
    case (ClientError err)
    with ev Cons.prems show ?thesis
      by (simp add: loginEvent_def onError_def loginEvents_detached callbacks_append)
  next
    case (SteamGuard w)
    with ev Cons.prems assms Cons.IH[of st] show ?thesis
      by (simp add: loginEvent_def onSteamGuard_def truthy_def callbacks_append
            case_prod_beta)
  qed
qed

lemma loginEvents_unseeded:
  assumes "\<not> truthy (sharedSecret cfg)"
  shows "callbacks (fst (loginEvents totp cfg evs st)) = []
         \<and> (listening st \<and> challengesBefore evs \<noteq> []
              \<longrightarrow> outcome (snd (loginEvents totp cfg evs st)) = Rejected SteamGuardCodeRequired
                  \<and> \<not> listening (snd (loginEvents totp cfg evs st)))"
proof (cases "listening st")
  case False
  then show ?thesis by (simp add: loginEvents_detached)
next
  case True
  show ?thesis
  proof (cases evs)
    case Nil
    then show ?thesis by simp
  next
    case (Cons ev rest)
    obtain t e where ev: "ev = (t, e)" by (cases ev)
    show ?thesis
    proof (cases e)
      case LoggedOn
      with ev Cons True show ?thesis by (simp add: loginEvent_def loginEvents_detached)
    next
      case (ClientError err)
      with ev Cons True show ?thesis
        by (simp add: loginEvent_def onError_def loginEvents_detached callbacks_append)
    next
      case (SteamGuard w)
      with ev Cons True assms show ?thesis
        by (simp add: loginEvent_def onSteamGuard_def loginEvents_detached callbacks_append)
    qed
  qed
qed

section \<open>The example states\<close>

lemmas ex_defs = ex_bot_def ex_db_def ex_online_def ex_discord_def ex_steam_def ex_playing_def
  ex_away_def ex_renamed_def ex_db_seen_def ex_bot_seen_def ex_link_def ex_user_def
  ex_none_def ex_cache_write_fails_def

lemmas op_defs = getMappingBySteamId_def getSteamCache_def canUpdate_def
  updateSteamCache_def recordUpdate_def getAllServerConfigs_def sendPresenceUpdate_def
  rowOf_def rateLimitOf_def cacheOf_def changed_def at_time_def getUserMapping_def Let_def

text \<open>The first event takes \<^const>\<open>ex_bot\<close> to \<^const>\<open>ex_bot_seen\<close>.\<close>

lemma ex_first_event:
  "snd (handlePresenceChange (at_time 0) ex_online ex_bot) = ex_bot_seen"
  by (simp add: handlePresenceChange_def presenceTry_def ex_defs op_defs)

section \<open>The presence pipeline: claims C1, C3, C4, C5, C6\<close>

text \<open>
  Claim C1, amended. For a presence event of a linked account that differs from the cached
  row in the presence state or the activity name, or that finds no cached row, the cache
  row of the account after the handler is the row of the event's snapshot, stamped with the
  time of the write; this holds whether or not the event is notified.
\<close>

theorem changed_event_refreshes_cache:
  assumes "db b = Some d" and "getMappingBySteamId d (steamId p) = Some m" and "changed d p"
  shows "\<exists>d'. db (snd (handlePresenceChange tk p b)) = Some d'
           \<and> getSteamCache d' (steamId p) = Some (rowOf (tick_cache tk) p)"
proof (cases "canUpdate (tick_canUpdate tk) d (steamId p) 300")
  case False
  show ?thesis
    using handle_limited[OF assms False] by (simp add: cache_after_update)
next
  case True
  show ?thesis
    using handle_eligible_store[OF assms True]
    by (simp add: cache_after_update cache_after_record)
qed

theorem changed_event_refreshes_cache_witness:
  "db ex_bot_seen = Some ex_db_seen
   \<and> getMappingBySteamId ex_db_seen (steamId ex_playing) = Some ex_link
   \<and> changed ex_db_seen ex_playing
   \<and> \<not> canUpdate 10 ex_db_seen (steamId ex_playing) 300
   \<and> cacheOf (snd (handlePresenceChange (at_time 10) ex_playing ex_bot_seen))
        (steamId ex_playing) = Some (rowOf 10 ex_playing)"
  using changed_event_refreshes_cache
          [of ex_bot_seen ex_db_seen ex_playing ex_link "at_time 10"]
  by (auto simp add: ex_defs op_defs)

text \<open>
  Claim C1 as stated fails for an event whose compared fields equal the cached ones: the
  display name changed from \<open>X\<close> to \<open>Y\<close>, the event reaches the handler for the linked
  account, and the cache keeps the row written at time 0 with the name \<open>X\<close>.
\<close>

theorem identical_event_keeps_stale_row_counterexample:
  "db ex_bot_seen = Some ex_db_seen
   \<and> getMappingBySteamId ex_db_seen (steamId ex_renamed) = Some ex_link
   \<and> cacheOf (snd (handlePresenceChange (at_time 400) ex_renamed ex_bot_seen))
        (steamId ex_renamed) = Some (rowOf 0 ex_online)
   \<and> rowOf 0 ex_online \<noteq> rowOf 400 ex_renamed
   \<and> persona_name (rowOf 0 ex_online) \<noteq> personaName ex_renamed"
  by (simp add: handlePresenceChange_def presenceTry_def ex_defs op_defs)

text \<open>
  Claim C3. For a linked account with a cache row, a snapshot whose presence state and
  activity name equal the cached ones does nothing at all: no effect (so no notification
  and no write on the rate-limit table) and the same store, whatever the rate-limit row
  says. And whatever the bot and the snapshot, handling the same snapshot a second time
  attempts no send, delivers nothing, writes nothing and leaves the bot as the first run
  left it.
\<close>

theorem unchanged_snapshot_is_ignored:
  "(db b = Some d \<and> getMappingBySteamId d (steamId p) = Some m
      \<and> getSteamCache d (steamId p) = Some prev
      \<and> persona_state prev = personaState p \<and> game_name prev = gameName p
    \<longrightarrow> handlePresenceChange tk p b = ([], b))
   \<and> attempted (fst (handlePresenceChange tk' p (snd (handlePresenceChange tk p b)))) = []
   \<and> delivered (fst (handlePresenceChange tk' p (snd (handlePresenceChange tk p b)))) = []
   \<and> (\<forall>e \<in> set (fst (handlePresenceChange tk' p (snd (handlePresenceChange tk p b)))).
         \<not> isStoreWrite e)
   \<and> snd (handlePresenceChange tk' p (snd (handlePresenceChange tk p b)))
       = snd (handlePresenceChange tk p b)"
proof -
  have "handlePresenceChange tk p b = ([], b)"
    if "db b = Some d" "getMappingBySteamId d (steamId p) = Some m"
       "getSteamCache d (steamId p) = Some prev"
       "persona_state prev = personaState p" "game_name prev = gameName p"
  proof -
    have "\<not> changed d p" using that by (simp add: changed_def)
    with that show ?thesis by (simp add: handle_unchanged)
  qed
  then show ?thesis
    by (simp add: second_delivery isStoreWrite_def)
qed

theorem unchanged_snapshot_is_ignored_witness:
  "db ex_bot_seen = Some ex_db_seen
   \<and> getMappingBySteamId ex_db_seen (steamId ex_renamed) = Some ex_link
   \<and> getSteamCache ex_db_seen (steamId ex_renamed) = Some (rowOf 0 ex_online)
   \<and> persona_state (rowOf 0 ex_online) = personaState ex_renamed
   \<and> game_name (rowOf 0 ex_online) = gameName ex_renamed
   \<and> \<not> canUpdate 10 ex_db_seen (steamId ex_renamed) 300
   \<and> handlePresenceChange (at_time 10) ex_renamed ex_bot_seen = ([], ex_bot_seen)"
  using unchanged_snapshot_is_ignored
          [of ex_bot_seen ex_db_seen ex_renamed ex_link "rowOf 0 ex_online" "at_time 10"]
  by (simp add: ex_defs op_defs)

text \<open>
  Claim C4. With the cooldown of 300 seconds \<^const>\<open>canUpdate\<close> holds exactly when the account
  has no rate-limit row or the time since \<^verbatim>\<open>last_update\<close> is at least 300. For a linked
  account without a rate-limit row and a bot with a chat client: a changed event at time 0
  is sent to the configured channels and creates the row (time 0, count 1); a changed
  event at time 299 only logs and writes the cache, the row staying as it was; a changed
  event at time 300 is sent again and sets the row to time 300, count 2.
\<close>

theorem cooldown_boundary:
  "(canUpdate now d0 s 300
      \<longleftrightarrow> rate_limits d0 s = None
          \<or> (\<exists>r. rate_limits d0 s = Some r \<and> now - last_update r \<ge> 300))
   \<and> (db b = Some d \<and> discordManager b = Some dm
        \<and> getMappingBySteamId d sid = Some m \<and> rate_limits d sid = None
        \<and> steamId pB = sid \<and> steamId pC = sid \<and> steamId pD = sid
        \<and> changed d pB
        \<and> (personaState pC \<noteq> personaState pB \<or> gameName pC \<noteq> gameName pB)
        \<and> (personaState pD \<noteq> personaState pC \<or> gameName pD \<noteq> gameName pC)
      \<longrightarrow> (let r0 = handlePresenceChange (at_time 0) pB b;
               r299 = handlePresenceChange (at_time 299) pC (snd r0);
               r300 = handlePresenceChange (at_time 300) pD (snd r299)
           in attempted (fst r0) = map sc_update_channel_id (server_configs d)
              \<and> delivered (fst r0)
                  = filter (delivers dm) (map sc_update_channel_id (server_configs d))
              \<and> rateLimitOf (snd r0) sid = Some \<lparr>last_update = 0, update_count = 1\<rparr>
              \<and> cacheOf (snd r0) sid = Some (rowOf 0 pB)
              \<and> fst r299 = [Log Debug (RateLimitedUpdate sid), WroteCache sid]
              \<and> rateLimitOf (snd r299) sid = Some \<lparr>last_update = 0, update_count = 1\<rparr>
              \<and> cacheOf (snd r299) sid = Some (rowOf 299 pC)
              \<and> attempted (fst r300) = map sc_update_channel_id (server_configs d)
              \<and> delivered (fst r300)
                  = filter (delivers dm) (map sc_update_channel_id (server_configs d))
              \<and> rateLimitOf (snd r300) sid = Some \<lparr>last_update = 300, update_count = 2\<rparr>
              \<and> cacheOf (snd r300) sid = Some (rowOf 300 pD)))"
proof -
  have iff: "canUpdate now d0 s 300
      \<longleftrightarrow> rate_limits d0 s = None
          \<or> (\<exists>r. rate_limits d0 s = Some r \<and> now - last_update r \<ge> 300)"
    by (auto simp: canUpdate_def split: option.splits)
  have run: "(let r0 = handlePresenceChange (at_time 0) pB b;
               r299 = handlePresenceChange (at_time 299) pC (snd r0);
               r300 = handlePresenceChange (at_time 300) pD (snd r299)
           in attempted (fst r0) = map sc_update_channel_id (server_configs d)
              \<and> delivered (fst r0)
                  = filter (delivers dm) (map sc_update_channel_id (server_configs d))
              \<and> rateLimitOf (snd r0) sid = Some \<lparr>last_update = 0, update_count = 1\<rparr>
              \<and> cacheOf (snd r0) sid = Some (rowOf 0 pB)
              \<and> fst r299 = [Log Debug (RateLimitedUpdate sid), WroteCache sid]
              \<and> rateLimitOf (snd r299) sid = Some \<lparr>last_update = 0, update_count = 1\<rparr>
              \<and> cacheOf (snd r299) sid = Some (rowOf 299 pC)
              \<and> attempted (fst r300) = map sc_update_channel_id (server_configs d)
              \<and> delivered (fst r300)
                  = filter (delivers dm) (map sc_update_channel_id (server_configs d))
              \<and> rateLimitOf (snd r300) sid = Some \<lparr>last_update = 300, update_count = 2\<rparr>
              \<and> cacheOf (snd r300) sid = Some (rowOf 300 pD))"
    if d: "db b = Some d" and dm: "discordManager b = Some dm"
      and m: "getMappingBySteamId d sid = Some m" and fresh: "rate_limits d sid = None"
      and ids: "steamId pB = sid" "steamId pC = sid" "steamId pD = sid"
      and cB: "changed d pB"
      and cC: "personaState pC \<noteq> personaState pB \<or> gameName pC \<noteq> gameName pB"
      and cD: "personaState pD \<noteq> personaState pC \<or> gameName pD \<noteq> gameName pC"
  proof -
    let ?cfgs = "map sc_update_channel_id (server_configs d)"
    \<comment> \<open>the event at time 0\<close>
    let ?d1 = "recordUpdate 0 (updateSteamCache 0 d sid pB) sid"
    let ?b1 = "b\<lparr>db := Some ?d1\<rparr>"
    let ?r0 = "handlePresenceChange (at_time 0) pB b"
    have mB: "getMappingBySteamId d (steamId pB) = Some m" using m ids by simp
    have can0: "canUpdate (tick_canUpdate (at_time 0)) d (steamId pB) 300"
      using fresh ids by (simp add: canUpdate_def)
    have s0: "snd ?r0 = ?b1"
      using handle_eligible_store[OF d mB cB can0] ids by (simp add: at_time_def)
    have e0: "attempted (fst ?r0) = ?cfgs \<and> delivered (fst ?r0) = filter (delivers dm) ?cfgs"
      using handle_eligible_effects[OF d dm mB cB can0]
      by (simp add: attempted_append delivered_append fanout_attempted fanout_delivered)
    have rl1: "rate_limits ?d1 sid = Some \<lparr>last_update = 0, update_count = 1\<rparr>"
      using fresh by (simp add: recordUpdate_def updateSteamCache_def)
    have c1: "getSteamCache ?d1 sid = Some (rowOf 0 pB)"
      by (simp add: cache_after_record cache_after_update)
    have m1: "getMappingBySteamId ?d1 (steamId pC) = Some m"
      using m ids by (simp add: mapping_after_record mapping_after_update)
    \<comment> \<open>the event at time 299\<close>
    let ?d2 = "updateSteamCache 299 ?d1 sid pC"
    let ?b2 = "?b1\<lparr>db := Some ?d2\<rparr>"
    have db1: "db ?b1 = Some ?d1" by simp
    have ch1: "changed ?d1 pC" using c1 cC ids by (auto simp: changed_def rowOf_def)
    have can1: "\<not> canUpdate (tick_canUpdate (at_time 299)) ?d1 (steamId pC) 300"
      using rl1 ids by (simp add: canUpdate_def at_time_def)
    have r299: "handlePresenceChange (at_time 299) pC ?b1
                  = ([Log Debug (RateLimitedUpdate sid), WroteCache sid], ?b2)"
      using handle_limited[OF db1 m1 ch1 can1] ids by (simp add: at_time_def)
    have rl2: "rate_limits ?d2 sid = Some \<lparr>last_update = 0, update_count = 1\<rparr>"
      using rl1 by (simp add: updateSteamCache_def)
    have c2: "getSteamCache ?d2 sid = Some (rowOf 299 pC)" by (simp add: cache_after_update)
    have m2: "getMappingBySteamId ?d2 (steamId pD) = Some m"
      using m ids by (simp add: mapping_after_record mapping_after_update)
    \<comment> \<open>the event at time 300\<close>
    let ?d3 = "recordUpdate 300 (updateSteamCache 300 ?d2 sid pD) sid"
    let ?r300 = "handlePresenceChange (at_time 300) pD ?b2"
    have db2: "db ?b2 = Some ?d2" by simp
    have dm2: "discordManager ?b2 = Some dm" using dm by simp
    have ch2: "changed ?d2 pD" using c2 cD ids by (auto simp: changed_def rowOf_def)
    have can2: "canUpdate (tick_canUpdate (at_time 300)) ?d2 (steamId pD) 300"
      using rl2 ids by (simp add: canUpdate_def at_time_def)
    have s3: "snd ?r300 = ?b2\<lparr>db := Some ?d3\<rparr>"
      using handle_eligible_store[OF db2 m2 ch2 can2] ids by (simp add: at_time_def)
    have cf: "server_configs ?d2 = server_configs d"
      by (simp add: recordUpdate_def updateSteamCache_def)
    have e3: "attempted (fst ?r300) = ?cfgs \<and> delivered (fst ?r300) = filter (delivers dm) ?cfgs"
      using handle_eligible_effects[OF db2 dm2 m2 ch2 can2] cf
      by (simp add: attempted_append delivered_append fanout_attempted fanout_delivered)
    have rl3: "rate_limits ?d3 sid = Some \<lparr>last_update = 300, update_count = 2\<rparr>"
      using rl2 by (simp add: recordUpdate_def updateSteamCache_def)
    have c3: "getSteamCache ?d3 sid = Some (rowOf 300 pD)"
      by (simp add: cache_after_record cache_after_update)
    show ?thesis
      unfolding Let_def s0 r299 fst_conv snd_conv
      using e0 e3 rl1 c1 rl2 c2 rl3 c3 s0 s3
      by (simp add: rateLimitOf_def cacheOf_def)
  qed
  from iff run show ?thesis by blast
qed

theorem cooldown_boundary_witness:
  "db ex_bot = Some ex_db \<and> discordManager ex_bot = Some ex_discord
   \<and> getMappingBySteamId ex_db ''76561198000000001'' = Some ex_link
   \<and> rate_limits ex_db ''76561198000000001'' = None
   \<and> changed ex_db ex_online
   \<and> gameName ex_playing \<noteq> gameName ex_online
   \<and> personaState ex_away \<noteq> personaState ex_playing
   \<and> delivered (fst (handlePresenceChange (at_time 0) ex_online ex_bot)) = [''D2'']
   \<and> fst (handlePresenceChange (at_time 299) ex_playing
             (snd (handlePresenceChange (at_time 0) ex_online ex_bot)))
       = [Log Debug (RateLimitedUpdate ''76561198000000001''),
          WroteCache ''76561198000000001'']
   \<and> rateLimitOf (snd (handlePresenceChange (at_time 300) ex_away
         (snd (handlePresenceChange (at_time 299) ex_playing
            (snd (handlePresenceChange (at_time 0) ex_online ex_bot))))))
        ''76561198000000001''
       = Some \<lparr>last_update = 300, update_count = 2\<rparr>"
  using cooldown_boundary
          [of 0 ex_db "''76561198000000001''" ex_bot ex_db ex_discord "''76561198000000001''"
              ex_link ex_online ex_playing ex_away]
  by (simp add: ex_defs op_defs delivers_def)

text \<open>
  Claim C5. A changed event of a linked account that \<^const>\<open>canUpdate\<close> refuses only logs a
  debug line and writes the cache: the cache row becomes the snapshot's, the rate-limit
  table is the one before, and no send is attempted.
\<close>

theorem rate_limited_event_only_refreshes_cache:
  assumes "db b = Some d" and "getMappingBySteamId d (steamId p) = Some m" and "changed d p"
    and "\<not> canUpdate (tick_canUpdate tk) d (steamId p) 300"
  shows "handlePresenceChange tk p b =
           ([Log Debug (RateLimitedUpdate (steamId p)), WroteCache (steamId p)],
            b\<lparr>db := Some (updateSteamCache (tick_cache tk) d (steamId p) p)\<rparr>)
         \<and> getSteamCache (updateSteamCache (tick_cache tk) d (steamId p) p) (steamId p)
             = Some (rowOf (tick_cache tk) p)
         \<and> rate_limits (updateSteamCache (tick_cache tk) d (steamId p) p) = rate_limits d
         \<and> attempted (fst (handlePresenceChange tk p b)) = []
         \<and> delivered (fst (handlePresenceChange tk p b)) = []"
  using handle_limited[OF assms]
  by (simp add: cache_after_update) (simp add: updateSteamCache_def)

theorem rate_limited_event_only_refreshes_cache_witness:
  "db ex_bot_seen = Some ex_db_seen
   \<and> getMappingBySteamId ex_db_seen (steamId ex_playing) = Some ex_link
   \<and> changed ex_db_seen ex_playing
   \<and> \<not> canUpdate 299 ex_db_seen (steamId ex_playing) 300
   \<and> fst (handlePresenceChange (at_time 299) ex_playing ex_bot_seen)
       = [Log Debug (RateLimitedUpdate (steamId ex_playing)), WroteCache (steamId ex_playing)]
   \<and> cacheOf (snd (handlePresenceChange (at_time 299) ex_playing ex_bot_seen))
        (steamId ex_playing) = Some (rowOf 299 ex_playing)
   \<and> rateLimitOf (snd (handlePresenceChange (at_time 299) ex_playing ex_bot_seen))
        (steamId ex_playing) = Some \<lparr>last_update = 0, update_count = 1\<rparr>"
  using rate_limited_event_only_refreshes_cache
          [of ex_bot_seen ex_db_seen ex_playing ex_link "at_time 299"]
  by (auto simp add: ex_defs op_defs)

text \<open>
  Claim C6. For a changed event of a linked account that \<^const>\<open>canUpdate\<close> accepts, with a
  chat client in place: the two store writes come first and the effects after them contain
  no store write; a send is attempted on every configured channel, in order, whichever of
  them fail; the messages reach exactly the channels that deliver; and the store afterwards
  is the one the two writes produce, which does not depend on the chat client.
\<close>

theorem fanout_follows_commit_and_is_isolated:
  assumes "db b = Some d" and "discordManager b = Some dm"
    and "getMappingBySteamId d (steamId p) = Some m" and "changed d p"
    and "canUpdate (tick_canUpdate tk) d (steamId p) 300"
  shows "(\<exists>es. fst (handlePresenceChange tk p b)
                 = WroteCache (steamId p) # WroteRateLimit (steamId p) # es
              \<and> (\<forall>e \<in> set es. \<not> isStoreWrite e)
              \<and> attempted es = map sc_update_channel_id (server_configs d)
              \<and> delivered es
                  = filter (delivers dm) (map sc_update_channel_id (server_configs d)))
         \<and> snd (handlePresenceChange tk p b)
             = b\<lparr>db := Some (recordUpdate (tick_recordUpdate tk)
                              (updateSteamCache (tick_cache tk) d (steamId p) p) (steamId p))\<rparr>"
proof -
  let ?f = "fanout (Some dm) p (getSteamCache d (steamId p)) (server_configs d) 0"
  let ?tail = "if fst (snd ?f) > 0
               then [Log Info (SentPresenceUpdate (personaName p) (fst (snd ?f)))] else []"
  have e: "fst (handlePresenceChange tk p b)
             = WroteCache (steamId p) # WroteRateLimit (steamId p) # (fst ?f @ ?tail)"
    using handle_eligible_effects[OF assms] by simp
  have w: "\<forall>e \<in> set (fst ?f @ ?tail). \<not> isStoreWrite e"
    using fanout_effects[of _ "Some dm" p "getSteamCache d (steamId p)" "server_configs d" 0]
    by (auto simp: isStoreWrite_def)
  have a: "attempted (fst ?f @ ?tail) = map sc_update_channel_id (server_configs d)"
    by (simp add: attempted_append fanout_attempted)
  have dl: "delivered (fst ?f @ ?tail)
              = filter (delivers dm) (map sc_update_channel_id (server_configs d))"
    by (simp add: delivered_append fanout_delivered)
  from e w a dl handle_eligible_store[OF assms(1) assms(3) assms(4) assms(5)]
  show ?thesis by blast
qed

theorem fanout_follows_commit_and_is_isolated_witness:
  "db ex_bot = Some ex_db \<and> discordManager ex_bot = Some ex_discord
   \<and> getMappingBySteamId ex_db (steamId ex_online) = Some ex_link
   \<and> changed ex_db ex_online
   \<and> canUpdate 0 ex_db (steamId ex_online) 300
   \<and> map sc_update_channel_id (server_configs ex_db) = [''D1'', ''D2'']
   \<and> \<not> delivers ex_discord ''D1'' \<and> delivers ex_discord ''D2''
   \<and> attempted (fst (handlePresenceChange (at_time 0) ex_online ex_bot)) = [''D1'', ''D2'']
   \<and> delivered (fst (handlePresenceChange (at_time 0) ex_online ex_bot)) = [''D2'']
   \<and> snd (handlePresenceChange (at_time 0) ex_online ex_bot) = ex_bot_seen"
  using fanout_follows_commit_and_is_isolated
          [of ex_bot ex_db ex_discord ex_online ex_link "at_time 0"]
  by (auto simp add: ex_defs op_defs delivers_def)

section \<open>Admission, failure and shutdown: claims C7, C8\<close>

text \<open>
  Claim C7. An event of the presence service for an account outside the friends cache has no
  effect and leaves the bot, hence the cache, as it was: the handler of the pipeline is not
  called, whether or not the account is linked, and whichever calls would throw.
\<close>

theorem non_friend_event_is_dropped:
  assumes "steamManager b = Some sm" and "sid \<notin> friendsCache sm"
  shows "onUser tk sid user b = ([], b)
         \<and> onUserWith fails tk sid user b = ([], b)
         \<and> dispatch fails tk (UserEvent sid user) b = ([], b)"
  using assms by (simp add: onUser_def onUserWith_def dispatch_def)

theorem non_friend_event_is_dropped_witness:
  "steamManager (ex_bot\<lparr>steamManager := Some (ex_steam\<lparr>friendsCache := {}\<rparr>)\<rparr>)
     = Some (ex_steam\<lparr>friendsCache := {}\<rparr>)
   \<and> ''76561198000000001'' \<notin> friendsCache (ex_steam\<lparr>friendsCache := {}\<rparr>)
   \<and> getMappingBySteamId ex_db ''76561198000000001'' = Some ex_link
   \<and> dispatch ex_none (at_time 0)
        (UserEvent ''76561198000000001''
           \<lparr>player_name = Some ''X'', u_persona_state = Some 1, gameid = None,
            u_game_name = None\<rparr>)
        (ex_bot\<lparr>steamManager := Some (ex_steam\<lparr>friendsCache := {}\<rparr>)\<rparr>)
      = ([], ex_bot\<lparr>steamManager := Some (ex_steam\<lparr>friendsCache := {}\<rparr>)\<rparr>)"
  using non_friend_event_is_dropped
          [of "ex_bot\<lparr>steamManager := Some (ex_steam\<lparr>friendsCache := {}\<rparr>)\<rparr>"
              "ex_steam\<lparr>friendsCache := {}\<rparr>" "''76561198000000001''" "at_time 0"
              "\<lparr>player_name = Some ''X'', u_persona_state = Some 1, gameid = None,
                u_game_name = None\<rparr>" ex_none]
  by (simp add: ex_defs op_defs)

text \<open>
  Claim C8, amended. \<^verbatim>\<open>handlePresenceChange\<close> never starts the shutdown: whichever store
  calls throw and whatever else happens in its \<^verbatim>\<open>try\<close> block, the flag \<^verbatim>\<open>isShuttingDown\<close>
  is as before and no logout, destroy, close or exit is among the effects; an exception
  that ends the block is logged at error level after the effects already made, and the
  handler returns. The same holds for the whole reaction to a presence event. The shutdown
  runs for the process-level events: an uncaught exception or an unhandled rejection logs
  one error line and then does what a termination signal does, with the same logout,
  destroy, close and exit and the same final state. A shutdown that starts sets the flag
  and ends in an exit, with code 0 when its calls return and code 1 when one of them
  throws; when the three collaborators are there and their calls return, its steps are
  logout, destroy, close, exit 0 in this order.
\<close>

theorem presence_exception_is_logged_not_fatal:
  "isShuttingDown (snd (handlePresenceChangeWith fails tk p b)) = isShuttingDown b
   \<and> (\<forall>e \<in> set (fst (handlePresenceChangeWith fails tk p b)). \<not> isShutdownEffect e)
   \<and> (\<forall>x. snd (snd (presenceTryWith fails tk p b)) = Some x
         \<longrightarrow> handlePresenceChangeWith fails tk p b
             = (fst (presenceTryWith fails tk p b) @ [Log Error (ErrorHandlingPresenceChange x)],
                fst (snd (presenceTryWith fails tk p b))))
   \<and> handlePresenceChangeWith (\<lambda>c. False) tk p b = handlePresenceChange tk p b
   \<and> isShuttingDown (snd (dispatch fails tk (UserEvent sid user) b)) = isShuttingDown b
   \<and> (\<forall>e \<in> set (fst (dispatch fails tk (UserEvent sid user) b)). \<not> isShutdownEffect e)
   \<and> dispatch fails tk UncaughtException b
       = (Log Error UncaughtExceptionLine # fst (shutdown fails ''uncaughtException'' b),
          snd (shutdown fails ''uncaughtException'' b))
   \<and> dispatch fails tk UnhandledRejection b
       = (Log Error UnhandledRejectionLine # fst (shutdown fails ''unhandledRejection'' b),
          snd (shutdown fails ''unhandledRejection'' b))
   \<and> dispatch fails tk SIGINT b = shutdown fails ''SIGINT'' b
   \<and> dispatch fails tk SIGTERM b = shutdown fails ''SIGTERM'' b
   \<and> filter isShutdownEffect (fst (shutdown fails signal b))
       = filter isShutdownEffect (fst (shutdown fails ''SIGTERM'' b))
   \<and> snd (shutdown fails signal b) = snd (shutdown fails ''SIGTERM'' b)
   \<and> (\<not> isShuttingDown b
        \<longrightarrow> isShuttingDown (snd (shutdown fails signal b))
            \<and> last (fst (shutdown fails signal b))
                = ProcessExit (case snd (shutdownTry fails b) of None \<Rightarrow> 0 | Some error \<Rightarrow> 1))
   \<and> (\<not> isShuttingDown b \<and> steamManager b = Some sm \<and> isLoggedIn sm
        \<and> discordManager b = Some dm \<and> db b = Some d
        \<and> \<not> fails Call_logOff \<and> \<not> fails Call_destroy \<and> \<not> fails Call_close
        \<longrightarrow> filter isShutdownEffect (fst (shutdown fails signal b))
            = [SteamLogOff, DiscordDestroy, StoreClose, ProcessExit 0])"
proof -
  have h: "isShuttingDown (snd (handlePresenceChangeWith fails tk p b)) = isShuttingDown b
             \<and> (\<forall>e \<in> set (fst (handlePresenceChangeWith fails tk p b)). \<not> isShutdownEffect e)"
    for tk p
  proof -
    obtain es b' x where t: "presenceTryWith fails tk p b = (es, b', x)"
      by (cases "presenceTryWith fails tk p b") auto
    have "isShuttingDown b' = isShuttingDown b" "\<forall>e \<in> set es. \<not> isShutdownEffect e"
      using presenceTryWith_quiet[of fails tk p b] t by simp_all
    then show ?thesis
      using t by (cases x) (auto simp: handlePresenceChangeWith_def isShutdownEffect_def)
  qed
  have 3: "\<forall>x. snd (snd (presenceTryWith fails tk p b)) = Some x
         \<longrightarrow> handlePresenceChangeWith fails tk p b
             = (fst (presenceTryWith fails tk p b) @ [Log Error (ErrorHandlingPresenceChange x)],
                fst (snd (presenceTryWith fails tk p b)))"
    by (auto simp: handlePresenceChangeWith_def case_prod_beta)
  have 4: "isShuttingDown (snd (dispatch fails tk (UserEvent sid user) b)) = isShuttingDown b
           \<and> (\<forall>e \<in> set (fst (dispatch fails tk (UserEvent sid user) b)). \<not> isShutdownEffect e)"
    using h[of tk "presenceOf sid user"]
    by (auto simp: dispatch_def onUserWith_def Let_def case_prod_beta isShutdownEffect_def
          split: option.splits)
  have 6: "dispatch fails tk UncaughtException b
       = (Log Error UncaughtExceptionLine # fst (shutdown fails ''uncaughtException'' b),
          snd (shutdown fails ''uncaughtException'' b))
   \<and> dispatch fails tk UnhandledRejection b
       = (Log Error UnhandledRejectionLine # fst (shutdown fails ''unhandledRejection'' b),
          snd (shutdown fails ''unhandledRejection'' b))
   \<and> dispatch fails tk SIGINT b = shutdown fails ''SIGINT'' b
   \<and> dispatch fails tk SIGTERM b = shutdown fails ''SIGTERM'' b"
    by (simp add: dispatch_def case_prod_beta)
  from h[of tk p] 3 4 6 handlePresenceChangeWith_none[of tk p b]
    shutdownTry_effects[of fails signal b "''SIGTERM''"] shutdown_exits[of b fails signal]
    shutdown_sequence[of b sm dm d fails signal]
  show ?thesis by blast
qed

theorem presence_exception_is_logged_not_fatal_witness:
  "snd (snd (presenceTryWith ex_cache_write_fails (at_time 0) ex_online ex_bot))
     = Some (Thrown Call_updateSteamCache)
   \<and> handlePresenceChangeWith ex_cache_write_fails (at_time 0) ex_online ex_bot
       = ([Log Error (ErrorHandlingPresenceChange (Thrown Call_updateSteamCache))], ex_bot)
   \<and> \<not> isShuttingDown ex_bot
   \<and> steamManager ex_bot = Some ex_steam \<and> isLoggedIn ex_steam
   \<and> discordManager ex_bot = Some ex_discord \<and> db ex_bot = Some ex_db
   \<and> \<not> ex_cache_write_fails Call_logOff \<and> \<not> ex_cache_write_fails Call_destroy
   \<and> \<not> ex_cache_write_fails Call_close
   \<and> filter isShutdownEffect (fst (shutdown ex_cache_write_fails ''uncaughtException'' ex_bot))
       = [SteamLogOff, DiscordDestroy, StoreClose, ProcessExit 0]
   \<and> last (fst (shutdown ex_cache_write_fails ''uncaughtException'' ex_bot)) = ProcessExit 0"
  using presence_exception_is_logged_not_fatal
          [of ex_cache_write_fails "at_time 0" ex_online ex_bot
              "steamId ex_online" ex_user "''uncaughtException''" ex_steam ex_discord ex_db]
  by (simp add: handlePresenceChangeWith_def presenceTryWith_def ex_defs op_defs shutdown_def
        shutdownTry_def logout_def destroy_def isShutdownEffect_def)

text \<open>
  Claim C8 as stated fails in the running bot: the store rejects the cache write of an
  eligible event of a linked friend with an error. The handler logs the exception and
  returns, the bot is as before with \<^verbatim>\<open>isShuttingDown\<close> false and no logout, destroy, close
  or exit made, and the next event of the account is handled and delivered; a termination
  signal on the same bot runs logout, destroy, close and exit.
\<close>

theorem presence_exception_swallowed_counterexample:
  "db ex_bot = Some ex_db \<and> steamManager ex_bot = Some ex_steam
   \<and> discordManager ex_bot = Some ex_discord \<and> \<not> isShuttingDown ex_bot
   \<and> steamId ex_online \<in> friendsCache ex_steam
   \<and> getMappingBySteamId ex_db (steamId ex_online) = Some ex_link
   \<and> presenceOf (steamId ex_online) ex_user = ex_online
   \<and> snd (snd (presenceTryWith ex_cache_write_fails (at_time 0) ex_online ex_bot))
       = Some (Thrown Call_updateSteamCache)
   \<and> dispatch ex_cache_write_fails (at_time 0) (UserEvent (steamId ex_online) ex_user) ex_bot
       = ([Log Debug (PresenceUpdateFor ''X'' 1 None),
           Log Error (ErrorHandlingPresenceChange (Thrown Call_updateSteamCache))],
          ex_bot)
   \<and> delivered (fst (dispatch ex_none (at_time 1) (UserEvent (steamId ex_online) ex_user)
                       ex_bot)) = [''D2'']
   \<and> fst (dispatch ex_cache_write_fails (at_time 0) SIGTERM ex_bot)
       = [Log Info (ReceivedSignal ''SIGTERM''), SteamLogOff, Log Info LoggedOutOfSteam,
          DiscordDestroy, Log Info DiscordClientDestroyed, StoreClose,
          Log Info ShutdownComplete, ProcessExit 0]
   \<and> isShuttingDown (snd (dispatch ex_cache_write_fails (at_time 0) SIGTERM ex_bot))"
  by (simp add: handlePresenceChangeWith_def presenceTryWith_def ex_defs op_defs shutdown_def
        shutdownTry_def logout_def destroy_def dispatch_def onUserWith_def presenceOf_def
        orString_def orNull_def orZero_def truthy_def)

section \<open>The link command: claims C2, C10\<close>

text \<open>
  Claim C2, amended. When the identifier parses to an account and either the chat user is
  bound to a different account or the account is bound to a different chat user,
  \<^verbatim>\<open>handleLink\<close> leaves the store as it was; the reply is one of the two already-linked
  replies when the account is in the friends cache, and the not-friends reply otherwise.
  And whatever the request, a table with unique chat users and unique accounts stays so.
\<close>

theorem link_conflict_is_refused:
  "(parseSteamIdentifier identifier = Inr sid
      \<and> ((\<exists>e. getUserMapping d u = Some e \<and> um_steam_id e \<noteq> sid)
          \<or> (\<exists>e. getMappingBySteamId d sid = Some e \<and> um_discord_id e \<noteq> u))
    \<longrightarrow> snd (snd (handleLink now identifier u d sm)) = d
        \<and> (isFriend sm sid \<longrightarrow> isAlreadyLinkedOther (fst (handleLink now identifier u d sm)))
        \<and> (\<not> isFriend sm sid
             \<longrightarrow> fst (handleLink now identifier u d sm) = NotFriendsWithBot sid))
   \<and> (distinct (map um_discord_id (user_mappings d))
        \<and> distinct (map um_steam_id (user_mappings d))
      \<longrightarrow> distinct (map um_discord_id
                        (user_mappings (snd (snd (handleLink now identifier u d sm)))))
          \<and> distinct (map um_steam_id
                        (user_mappings (snd (snd (handleLink now identifier u d sm))))))"
proof -
  have a: "snd (snd (handleLink now identifier u d sm)) = d
        \<and> (isFriend sm sid \<longrightarrow> isAlreadyLinkedOther (fst (handleLink now identifier u d sm)))
        \<and> (\<not> isFriend sm sid
             \<longrightarrow> fst (handleLink now identifier u d sm) = NotFriendsWithBot sid)"
    if "parseSteamIdentifier identifier = Inr sid"
      and "(\<exists>e. getUserMapping d u = Some e \<and> um_steam_id e \<noteq> sid)
          \<or> (\<exists>e. getMappingBySteamId d sid = Some e \<and> um_discord_id e \<noteq> u)"
    using that by (auto simp: handleLink_def isAlreadyLinkedOther_def split: option.splits)
  have b: "distinct (map um_discord_id
                        (user_mappings (snd (snd (handleLink now identifier u d sm)))))
          \<and> distinct (map um_steam_id
                        (user_mappings (snd (snd (handleLink now identifier u d sm)))))"
    if u: "distinct (map um_discord_id (user_mappings d))"
          "distinct (map um_steam_id (user_mappings d))"
  proof -
    obtain reply es d' where h: "handleLink now identifier u d sm = (reply, es, d')"
      by (cases "handleLink now identifier u d sm") auto
    from handleLink_cases[OF h] have "d' = d \<or> (\<exists>r. d' = linkUser now d u r)" by blast
    then show ?thesis using h u linkUser_keeps_unique[OF u] by auto
  qed
  from a b show ?thesis by blast
qed

theorem link_conflict_is_refused_witness:
  "parseSteamIdentifier ''76561198000000002'' = Inr ''76561198000000002''
   \<and> getUserMapping ex_db ''U'' = Some ex_link
   \<and> um_steam_id ex_link \<noteq> ''76561198000000002''
   \<and> isFriend (ex_steam\<lparr>friendsCache := {''76561198000000002''}\<rparr>) ''76561198000000002''
   \<and> distinct (map um_discord_id (user_mappings ex_db))
   \<and> distinct (map um_steam_id (user_mappings ex_db))
   \<and> handleLink 7 ''76561198000000002'' ''U'' ex_db
        (ex_steam\<lparr>friendsCache := {''76561198000000002''}\<rparr>)
      = (AlreadyLinkedTo ''76561198000000001'', [], ex_db)
   \<and> isAlreadyLinkedOther (AlreadyLinkedTo ''76561198000000001'')"
  using link_conflict_is_refused
          [of "''76561198000000002''" "''76561198000000002''" ex_db "''U''" 7
              "ex_steam\<lparr>friendsCache := {''76561198000000002''}\<rparr>"]
  by (simp add: handleLink_def parseSteamIdentifier_def trim_def isWhiteSpace_def
        testSteamID64_def isDigit_def isFriend_def ex_defs isAlreadyLinkedOther_def
        getUserMapping_def getMappingBySteamId_def)

text \<open>
  Claim C2 as stated fails when the requested account is not a friend of the bot: user \<open>U\<close>,
  bound to another account, asks for an account outside the friends cache, and the reply
  is the not-friends one, not an already-linked one.
\<close>

theorem link_conflict_other_failure_counterexample:
  "parseSteamIdentifier ''76561198000000002'' = Inr ''76561198000000002''
   \<and> getUserMapping ex_db ''U'' = Some ex_link
   \<and> um_steam_id ex_link \<noteq> ''76561198000000002''
   \<and> handleLink 7 ''76561198000000002'' ''U'' ex_db ex_steam
      = (NotFriendsWithBot ''76561198000000002'', [], ex_db)
   \<and> \<not> isAlreadyLinkedOther (NotFriendsWithBot ''76561198000000002'')"
  by (simp add: handleLink_def parseSteamIdentifier_def trim_def isWhiteSpace_def
        testSteamID64_def isDigit_def isFriend_def ex_defs isAlreadyLinkedOther_def
        getUserMapping_def getMappingBySteamId_def)

text \<open>
  Claim C10. \<^verbatim>\<open>parseSteamIdentifier\<close> returns the trimmed input when that is seventeen
  digits starting with 7656119; otherwise the digits captured after the leftmost
  \<^verbatim>\<open>steamcommunity.com/profiles/\<close> that a digit follows, when there is one; otherwise it
  throws, with the custom-URL error when \<^verbatim>\<open>steamcommunity.com/id/\<close> and a name occur and
  with the format error for every other input. Whatever it returns is a non-empty string
  of digits, and it is the trimmed input only in the first case. \<^verbatim>\<open>handleLink\<close> writes the store only in a successful link, and then with the
  parsed, numeric account id.
\<close>

theorem parseSteamIdentifier_numeric_or_throws:
  "parseSteamIdentifier s =
     (if length (trim s) = 17 \<and> take 7 (trim s) = ''7656119'' \<and> list_all isDigit (trim s)
      then Inr (trim s)
      else case profileMatch (trim s) of
             Some digits \<Rightarrow> Inr digits
           | None \<Rightarrow> Inl (if customMatch (trim s) \<noteq> None then CustomUrlNotSupported
                            else InvalidFormat))
   \<and> (\<forall>r. parseSteamIdentifier s = Inr r \<longrightarrow> r \<noteq> [] \<and> list_all isDigit r)
   \<and> (parseSteamIdentifier s = Inr (trim s)
        \<longrightarrow> length (trim s) = 17 \<and> take 7 (trim s) = ''7656119'' \<and> list_all isDigit (trim s))
   \<and> (\<forall>pre c post. trim s = pre @ ''steamcommunity.com/profiles/'' @ c # post \<and> isDigit c
         \<longrightarrow> (\<exists>r. parseSteamIdentifier s = Inr r))
   \<and> (\<forall>r. profileMatch (trim s) = Some r \<longrightarrow>
         (\<exists>pre post. trim s = pre @ ''steamcommunity.com/profiles/'' @ r @ post
            \<and> (post = [] \<or> \<not> isDigit (hd post))))
   \<and> (\<forall>r es d'. handleLink now s u d sm = (SuccessfullyLinked r, es, d') \<longrightarrow>
         r \<noteq> [] \<and> list_all isDigit r \<and> d' = linkUser now d u r)
   \<and> (\<forall>reply es d'. handleLink now s u d sm = (reply, es, d')
         \<and> (\<forall>r. reply \<noteq> SuccessfullyLinked r) \<longrightarrow> d' = d)"
proof -
  have 1: "parseSteamIdentifier s =
     (if length (trim s) = 17 \<and> take 7 (trim s) = ''7656119'' \<and> list_all isDigit (trim s)
      then Inr (trim s)
      else case profileMatch (trim s) of
             Some digits \<Rightarrow> Inr digits
           | None \<Rightarrow> Inl (if customMatch (trim s) \<noteq> None then CustomUrlNotSupported
                            else InvalidFormat))"
    using parse_cases[of s] by (simp add: testSteamID64_iff)
  have 2: "\<forall>r. parseSteamIdentifier s = Inr r \<longrightarrow> r \<noteq> [] \<and> list_all isDigit r"
    using parse_numeric by blast
  have 7: "length (trim s) = 17 \<and> take 7 (trim s) = ''7656119'' \<and> list_all isDigit (trim s)"
    if r: "parseSteamIdentifier s = Inr (trim s)"
  proof (rule ccontr)
    assume n: "\<not> (length (trim s) = 17 \<and> take 7 (trim s) = ''7656119''
                  \<and> list_all isDigit (trim s))"
    with 1 r have "profileMatch (trim s) = Some (trim s)"
      by (auto split: option.splits)
    then obtain pre post
      where "trim s = pre @ ''steamcommunity.com/profiles/'' @ trim s @ post"
      unfolding profileMatch_def using matchAfter_sound by blast
    then have "length (trim s)
                 = length (pre @ ''steamcommunity.com/profiles/'' @ trim s @ post)"
      by simp
    then show False by simp
  qed
  have 3: "\<exists>r. parseSteamIdentifier s = Inr r"
    if "trim s = pre @ ''steamcommunity.com/profiles/'' @ c # post" "isDigit c" for pre c post
  proof -
    have "profileMatch (trim s) \<noteq> None"
      unfolding profileMatch_def that(1)
      using that(2) by (rule matchAfter_complete[where cls = isDigit and c = c])
    then show ?thesis using parse_cases[of s] by auto
  qed
  have 4: "\<forall>r. profileMatch (trim s) = Some r \<longrightarrow>
         (\<exists>pre post. trim s = pre @ ''steamcommunity.com/profiles/'' @ r @ post
            \<and> (post = [] \<or> \<not> isDigit (hd post)))"
    unfolding profileMatch_def using matchAfter_sound by blast
  have 5: "\<forall>r es d'. handleLink now s u d sm = (SuccessfullyLinked r, es, d') \<longrightarrow>
         r \<noteq> [] \<and> list_all isDigit r \<and> d' = linkUser now d u r"
    using handleLink_cases[of now s u d sm] parse_numeric by blast
  have 6: "\<forall>reply es d'. handleLink now s u d sm = (reply, es, d')
         \<and> (\<forall>r. reply \<noteq> SuccessfullyLinked r) \<longrightarrow> d' = d"
    using handleLink_cases[of now s u d sm] by blast
  from 1 2 3 4 5 6 7 show ?thesis by blast
qed

theorem parseSteamIdentifier_numeric_or_throws_witness:
  "parseSteamIdentifier '' https://steamcommunity.com/profiles/76561198000000002/home ''
     = Inr ''76561198000000002''
   \<and> list_all isDigit ''76561198000000002''
   \<and> isFriend (ex_steam\<lparr>friendsCache := {''76561198000000002''}\<rparr>) ''76561198000000002''
   \<and> handleLink 7 '' https://steamcommunity.com/profiles/76561198000000002/home '' ''V''
        ex_db (ex_steam\<lparr>friendsCache := {''76561198000000002''}\<rparr>)
      = (SuccessfullyLinked ''76561198000000002'',
         [Log Info (LinkedDiscordUser ''V'' ''76561198000000002'')],
         linkUser 7 ex_db ''V'' ''76561198000000002'')"
  using parseSteamIdentifier_numeric_or_throws
          [of "'' https://steamcommunity.com/profiles/76561198000000002/home ''" 7 "''V''"
              ex_db "ex_steam\<lparr>friendsCache := {''76561198000000002''}\<rparr>"]
  by (simp add: handleLink_def parseSteamIdentifier_def trim_def isWhiteSpace_def
        testSteamID64_def profileMatch_def isDigit_def isFriend_def ex_defs
        getUserMapping_def getMappingBySteamId_def)

section \<open>The login: claim C9\<close>

text \<open>
  Claim C9, amended. With a shared secret configured, \<^verbatim>\<open>login\<close> calls \<^verbatim>\<open>logOn\<close> with the code
  derived from the secret at the time of the call, and every \<^verbatim>\<open>steamGuard\<close> challenge that
  arrives while the login is pending, however many there are, is answered with the code
  derived from the secret at the time of that challenge, the login staying pending. With no
  shared secret no challenge is ever answered, and the first challenge rejects the login
  with the code-required error and detaches its listeners.
\<close>

theorem second_factor_code_is_derived_at_each_use:
  "(sharedSecret cfg = Some secret \<and> secret \<noteq> []
      \<longrightarrow> fst (loginStart totp cfg t0)
            = [Log Info GeneratedCodeFromSecret, Log Info AttemptingLogin,
               ClientLogOn (username cfg) (password cfg) (Some (totp secret t0))]
        \<and> callbacks (fst (login totp cfg t0 evs)) = map (totp secret) (challengesBefore evs)
        \<and> (listening st
             \<longrightarrow> loginEvent totp cfg (t, SteamGuard lastCodeWrong) st
                 = ((if lastCodeWrong then [Log Error PreviousCodeIncorrect] else [])
                    @ [Log Info GeneratedNewCodeFromSecret, GuardCallback (totp secret t)],
                    st)))
   \<and> (\<not> truthy (sharedSecret cfg)
      \<longrightarrow> callbacks (fst (login totp cfg t0 evs)) = []
        \<and> (challengesBefore evs \<noteq> []
             \<longrightarrow> outcome (snd (login totp cfg t0 evs)) = Rejected SteamGuardCodeRequired
                 \<and> \<not> listening (snd (login totp cfg t0 evs))))"
proof -
  have s: "fst (loginStart totp cfg t0)
            = [Log Info GeneratedCodeFromSecret, Log Info AttemptingLogin,
               ClientLogOn (username cfg) (password cfg) (Some (totp secret t0))]
        \<and> callbacks (fst (login totp cfg t0 evs)) = map (totp secret) (challengesBefore evs)
        \<and> (listening st
             \<longrightarrow> loginEvent totp cfg (t, SteamGuard lastCodeWrong) st
                 = ((if lastCodeWrong then [Log Error PreviousCodeIncorrect] else [])
                    @ [Log Info GeneratedNewCodeFromSecret, GuardCallback (totp secret t)],
                    st))"
    if a: "sharedSecret cfg = Some secret" "secret \<noteq> []"
  proof -
    have 1: "fst (loginStart totp cfg t0)
            = [Log Info GeneratedCodeFromSecret, Log Info AttemptingLogin,
               ClientLogOn (username cfg) (password cfg) (Some (totp secret t0))]"
      using a by (simp add: loginStart_def truthy_def)
    have l: "listening (snd (loginStart totp cfg t0))" by (simp add: loginStart_def)
    have 2: "callbacks (fst (login totp cfg t0 evs)) = map (totp secret) (challengesBefore evs)"
      using loginEvents_seeded[OF a l, of totp evs] 1
      by (simp add: login_def case_prod_beta callbacks_append)
    have 3: "listening st
             \<longrightarrow> loginEvent totp cfg (t, SteamGuard lastCodeWrong) st
                 = ((if lastCodeWrong then [Log Error PreviousCodeIncorrect] else [])
                    @ [Log Info GeneratedNewCodeFromSecret, GuardCallback (totp secret t)],
                    st)"
      using a by (simp add: loginEvent_def onSteamGuard_def truthy_def)
    from 1 2 3 show ?thesis by blast
  qed
  have u: "callbacks (fst (login totp cfg t0 evs)) = []
        \<and> (challengesBefore evs \<noteq> []
             \<longrightarrow> outcome (snd (login totp cfg t0 evs)) = Rejected SteamGuardCodeRequired
                 \<and> \<not> listening (snd (login totp cfg t0 evs)))"
    if n: "\<not> truthy (sharedSecret cfg)"
  proof -
    have l: "listening (snd (loginStart totp cfg t0))" by (simp add: loginStart_def)
    have c: "callbacks (fst (loginStart totp cfg t0)) = []"
      using n by (simp add: loginStart_def)
    show ?thesis
      using loginEvents_unseeded[OF n, of totp evs "snd (loginStart totp cfg t0)"] l c
      by (simp add: login_def case_prod_beta callbacks_append)
  qed
  from s u show ?thesis by blast
qed

theorem second_factor_code_is_derived_at_each_use_witness:
  "sharedSecret (config ex_steam) = Some ''seed''
   \<and> callbacks (fst (login ex_totp (config ex_steam) 0 [(31, SteamGuard False), (32, LoggedOn)]))
       = [''seed/1'']
   \<and> \<not> truthy (sharedSecret ((config ex_steam)\<lparr>sharedSecret := None\<rparr>))
   \<and> outcome (snd (login ex_totp ((config ex_steam)\<lparr>sharedSecret := None\<rparr>) 0
                      [(31, SteamGuard False), (32, LoggedOn)]))
       = Rejected SteamGuardCodeRequired"
  using second_factor_code_is_derived_at_each_use
          [of "config ex_steam" "''seed''" ex_totp 0 "[(31, SteamGuard False), (32, LoggedOn)]"
              "snd (loginStart ex_totp (config ex_steam) 0)" 31 False]
        second_factor_code_is_derived_at_each_use
          [of "(config ex_steam)\<lparr>sharedSecret := None\<rparr>" "''seed''" ex_totp 0
              "[(31, SteamGuard False), (32, LoggedOn)]"
              "snd (loginStart ex_totp (config ex_steam) 0)" 31 False]
  by (simp add: ex_steam_def ex_totp_def truthy_def login_def loginStart_def loginEvent_def
        onSteamGuard_def)

text \<open>
  Claim C9 as stated bounds the retries by one. Two challenges in one login, the second
  reporting that the last code was wrong, are both answered, each with the code of its own
  30-second window, and the login is still pending and listening for more.
\<close>

theorem second_factor_retried_twice_counterexample:
  "truthy (sharedSecret (config ex_steam))
   \<and> callbacks (fst (login ex_totp (config ex_steam) 0
                       [(31, SteamGuard False), (62, SteamGuard True)]))
       = [''seed/1'', ''seed/2'']
   \<and> outcome (snd (login ex_totp (config ex_steam) 0
                      [(31, SteamGuard False), (62, SteamGuard True)])) = Pending
   \<and> listening (snd (login ex_totp (config ex_steam) 0
                        [(31, SteamGuard False), (62, SteamGuard True)]))"
  by (simp add: ex_steam_def ex_totp_def truthy_def login_def loginStart_def loginEvent_def
        onSteamGuard_def)

end
